theory Spec2Isabelle
  imports Main "HOL-Library.AList"
begin

section \<open>Python values, errors and strings\<close>

text \<open>
  The embedding follows \<^verbatim>\<open>src/fastlogging/fastlogging.py\<close>. Every Python exception the
  module can raise is a constructor of \<open>error\<close>; \<open>Blocked\<close> is not an exception but the
  outcome of a call that never returns (a \<^verbatim>\<open>join()\<close> on a thread that waits forever).
\<close>

datatype error =
    ValueError string
  | RuntimeError string
  | KeyError
  | TypeError
  | AttributeError
  | OSError
  | Blocked

datatype pyval = PyStr string | PyBool bool | PyInt int | PyNone

text \<open>Decimal rendering, as \<^verbatim>\<open>%d\<close> prints a Python int.\<close>

fun str_nat :: "nat \<Rightarrow> string" where
  "str_nat n =
     (if n < 10 then [''0123456789'' ! n]
      else str_nat (n div 10) @ [''0123456789'' ! (n mod 10)])"

declare str_nat.simps [simp del]

definition str_int :: "int \<Rightarrow> string" where
  "str_int i = (if i < 0 then CHR ''-'' # str_nat (nat (- i)) else str_nat (nat i))"

text \<open>\<^verbatim>\<open>str(v)\<close>, as \<^verbatim>\<open>%s\<close> prints a value, and Python's truth value of it.\<close>

fun py_str :: "pyval \<Rightarrow> string" where
  "py_str (PyStr s) = s"
| "py_str (PyBool b) = (if b then ''True'' else ''False'')"
| "py_str (PyInt i) = str_int i"
| "py_str PyNone = ''None''"

fun truthy :: "pyval \<Rightarrow> bool" where
  "truthy (PyStr s) = (s \<noteq> [])"
| "truthy (PyBool b) = b"
| "truthy (PyInt i) = (i \<noteq> 0)"
| "truthy PyNone = False"

definition startswith :: "string \<Rightarrow> string \<Rightarrow> bool" where
  "startswith s p = (take (length p) s = p)"

text \<open>
  A keyword dictionary and the registry are insertion-ordered dictionaries: association
  lists with \<open>map_of\<close> for lookup, \<open>AList.update\<close> for assignment (in place when the
  key exists, appended otherwise) and \<open>AList.delete\<close> for \<^verbatim>\<open>del\<close>.
\<close>

type_synonym kwargs = "(string \<times> pyval) list"

text \<open>A log entry is the tuple \<^verbatim>\<open>(logTime, domain, level, msg, kwargs)\<close>.\<close>

type_synonym entry = "nat \<times> string \<times> int \<times> string \<times> kwargs"

section \<open>The file system and file objects\<close>

text \<open>
  Paths are POSIX strings. A path names a file through \<open>resolve\<close>: the list of its
  components from the root, with empty components and \<^verbatim>\<open>.\<close> dropped and \<^verbatim>\<open>..\<close> stepping
  up (no symbolic links). A directory entry maps such a physical path to an inode; an
  open file object holds its inode. Operations on a path listed in \<open>deny\<close> fail with
  \<open>OSError\<close> (a permission or a lock the process does not control).
\<close>

fun splitchar :: "char \<Rightarrow> string \<Rightarrow> string list" where
  "splitchar c [] = [[]]"
| "splitchar c (x # xs) =
     (if x = c then [] # splitchar c xs
      else (case splitchar c xs of [] \<Rightarrow> [[x]] | w # ws \<Rightarrow> (x # w) # ws))"

definition resolve_step :: "string \<Rightarrow> string list \<Rightarrow> string list" where
  "resolve_step c acc =
     (if c = [] \<or> c = ''.'' then acc else if c = ''..'' then butlast acc else acc @ [c])"

record filesys =
  cwd :: "string list"
  dirs :: "string list list"
  names :: "(string list \<times> nat) list"
  inodes :: "nat \<Rightarrow> string"
  n_inodes :: nat
  deny :: "string list list"

definition resolve :: "filesys \<Rightarrow> string \<Rightarrow> string list" where
  "resolve fs p =
     fold resolve_step (splitchar CHR ''/'' p) (if startswith p ''/'' then [] else cwd fs)"

text \<open>\<^verbatim>\<open>posixpath.split\<close>, \<^verbatim>\<open>dirname\<close> and \<^verbatim>\<open>join\<close> (of two parts).\<close>

definition rstrip_slash :: "string \<Rightarrow> string" where
  "rstrip_slash s = rev (dropWhile (\<lambda>c. c = CHR ''/'') (rev s))"

definition path_split :: "string \<Rightarrow> string \<times> string" where
  "path_split p =
     (let tail = rev (takeWhile (\<lambda>c. c \<noteq> CHR ''/'') (rev p));
          head = rev (dropWhile (\<lambda>c. c \<noteq> CHR ''/'') (rev p))
      in (if head \<noteq> [] \<and> rstrip_slash head \<noteq> [] then rstrip_slash head else head, tail))"

definition dirname :: "string \<Rightarrow> string" where
  "dirname p = fst (path_split p)"

definition path_join :: "string \<Rightarrow> string \<Rightarrow> string" where
  "path_join a b =
     (if startswith b ''/'' then b
      else if a = [] \<or> last a = CHR ''/'' then a @ b
      else a @ ''/'' @ b)"

definition isdir :: "filesys \<Rightarrow> string \<Rightarrow> bool" where
  "isdir fs p = (p \<noteq> [] \<and> resolve fs p \<in> set (dirs fs))"

definition listdir :: "filesys \<Rightarrow> string \<Rightarrow> error + string list" where
  "listdir fs d =
     (if isdir fs d
      then Inr (map last (filter (\<lambda>p. p \<noteq> [] \<and> butlast p = resolve fs d)
                            (map fst (names fs) @ dirs fs)))
      else Inl OSError)"

text \<open>
  \<^verbatim>\<open>open(p, "a")\<close> at the level of the file system: the inode the path names, created
  empty when the path names nothing yet.
\<close>

definition can_create :: "filesys \<Rightarrow> string \<Rightarrow> bool" where
  "can_create fs p =
     (let r = resolve fs p
      in p \<noteq> [] \<and> r \<noteq> [] \<and> r \<notin> set (dirs fs) \<and> butlast r \<in> set (dirs fs)
         \<and> r \<notin> set (deny fs))"

definition fs_open_append :: "filesys \<Rightarrow> string \<Rightarrow> (error + nat) \<times> filesys" where
  "fs_open_append fs p =
     (if can_create fs p
      then (case map_of (names fs) (resolve fs p) of
              Some i \<Rightarrow> (Inr i, fs)
            | None \<Rightarrow>
                (Inr (n_inodes fs),
                 fs\<lparr>names := names fs @ [(resolve fs p, n_inodes fs)],
                    inodes := (inodes fs)(n_inodes fs := []),
                    n_inodes := Suc (n_inodes fs)\<rparr>))
      else (Inl OSError, fs))"

definition os_replace :: "filesys \<Rightarrow> string \<Rightarrow> string \<Rightarrow> (error + unit) \<times> filesys" where
  "os_replace fs src dst =
     (let rs = resolve fs src; rd = resolve fs dst
      in case map_of (names fs) rs of
           None \<Rightarrow> (Inl OSError, fs)
         | Some i \<Rightarrow>
             (if rs \<in> set (deny fs) \<or> can_create fs dst = False then (Inl OSError, fs)
              else if rs = rd then (Inr (), fs)
              else (Inr (), fs\<lparr>names := AList.update rd i (AList.delete rs (names fs))\<rparr>)))"

definition os_remove :: "filesys \<Rightarrow> string \<Rightarrow> (error + unit) \<times> filesys" where
  "os_remove fs p =
     (let r = resolve fs p
      in case map_of (names fs) r of
           None \<Rightarrow> (Inl OSError, fs)
         | Some i \<Rightarrow>
             (if r \<in> set (deny fs) then (Inl OSError, fs)
              else (Inr (), fs\<lparr>names := AList.delete r (names fs)\<rparr>)))"

definition read_file :: "filesys \<Rightarrow> string \<Rightarrow> error + string" where
  "read_file fs p =
     (case map_of (names fs) (resolve fs p) of
        None \<Rightarrow> Inl OSError
      | Some i \<Rightarrow> (if resolve fs p \<in> set (deny fs) then Inl OSError else Inr (inodes fs i)))"

text \<open>\<^verbatim>\<open>open(p, "wb")\<close>: the file is created or truncated; the result is its inode.\<close>

definition open_wb :: "filesys \<Rightarrow> string \<Rightarrow> (error + nat) \<times> filesys" where
  "open_wb fs p =
     (case fs_open_append fs p of
        (Inl e, fs') \<Rightarrow> (Inl e, fs')
      | (Inr i, fs') \<Rightarrow> (Inr i, fs'\<lparr>inodes := (inodes fs')(i := [])\<rparr>))"

text \<open>
  A file object: its inode, whether it is closed, and how often \<^verbatim>\<open>close()\<close> was
  called on it (a ghost counter; Python's \<^verbatim>\<open>close()\<close> on a closed file does nothing).
  Writes go through to the inode: the buffer inside Python's file object is not
  modelled.
\<close>

record fileobj =
  fo_inode :: nat
  fo_closed :: bool
  fo_closes :: nat

definition nl :: string where
  "nl = [CHR 0x0A]"

section \<open>Loggers and the process state\<close>

text \<open>
  \<^verbatim>\<open>CommonConfig\<close>: the queue and the two events are shared objects, held by reference
  (an id into the stores of the state); \<^verbatim>\<open>maxSize\<close> and \<^verbatim>\<open>backupCnt\<close> are copied.
\<close>

record common_config =
  queue :: nat
  evtQueue :: nat
  evtRotate :: nat
  maxSize :: int
  backupCnt :: int

text \<open>\<^verbatim>\<open>LastMessage\<close>; \<open>None\<close> is Python's \<^verbatim>\<open>None\<close>.\<close>

record last_message =
  key :: "string option"
  cnt :: int
  entry :: "entry option"

text \<open>
  A \<^verbatim>\<open>threading.Timer\<close> with the arguments it was created with, and the writer thread
  by where it stands: at the top of its loop, inside \<^verbatim>\<open>evtQueue.wait()\<close>, or ended.
\<close>

datatype timer_state = Armed | Cancelled | Fired

record timer =
  tm_key :: "string option"
  tm_entry :: entry
  tm_cnt :: int
  tm_state :: timer_state

datatype thread_state = AtLoop | InWait | Finished

text \<open>
  A \<^verbatim>\<open>Logger\<close> object. \<open>server\<close> and \<open>client\<close> are \<open>None\<close> when the attribute does not
  exist.

  Modelled from the spec: \<^verbatim>\<open>fastlogging.network\<close> is not among the sources; a server is
  kept as its address, a client as its address and the entries handed to its \<^verbatim>\<open>log\<close>.
\<close>

record logger =
  domain :: string
  level :: int
  common :: common_config
  lastMsg :: last_message
  pathName :: "string option"
  F :: "nat option"
  buf :: "string list"
  size_buf :: int
  pos :: int
  console :: bool
  thrTimer :: "timer option"
  thrLogger :: "thread_state option"
  stopped :: bool
  server :: "(string \<times> nat) option"
  client :: "((string \<times> nat) \<times> entry list) option"

datatype backlog_item = BacklogEntry "entry option" | BacklogError string

text \<open>
  What the module imports or reads but never assigns: the level constants and
  \<^verbatim>\<open>LOG2SYM\<close> of the package's \<^verbatim>\<open>__init__\<close> (not among the sources, so parameters), the
  colour strings, the library functions \<^verbatim>\<open>time.strftime\<close>, \<^verbatim>\<open>%\<close> on strings and
  \<^verbatim>\<open>traceback.format_exc\<close>, and the class attributes that only the user sets. The
  writer hook is given the logger and returns the data it writes to the logger's file
  (or the exception it raises) with the buffer and buffered size it leaves behind.
\<close>

record env =
  NOLOG :: int
  FATAL :: int
  ERROR :: int
  WARNING :: int
  INFO :: int
  DEBUG :: int
  EXCEPTION :: int
  LOG2SYM :: "int \<Rightarrow> string option"
  NORMAL :: string
  BRIGHTRED :: string
  LVL2COL :: "int \<Rightarrow> string option"
  strftime :: "string \<Rightarrow> nat \<Rightarrow> string"
  percent :: "string \<Rightarrow> pyval list \<Rightarrow> error + string"
  format_exc :: "error option \<Rightarrow> string"
  dateFmt :: string
  cbMessageKey :: "(logger \<Rightarrow> entry \<Rightarrow> string option) option"
  cbFormatter :: "(logger \<Rightarrow> entry \<Rightarrow> error + string) option"
  cbWriter :: "(logger \<Rightarrow> (error + string) \<times> string list \<times> int) option"
  sameMsgTimeout :: nat
  sameMsgCountMax :: int

text \<open>
  The process: the registry \<^verbatim>\<open>domains\<close>, the heap of loggers, queues, events and file
  objects (each a store with the next free id), the file system, the class attributes
  the module assigns, and the two output streams.

  Modelled from the spec: the console sink (module \<^verbatim>\<open>console\<close>) is not among the sources;
  \<open>thrConsoleLogger\<close> holds what was appended to it.
\<close>

record state =
  domains :: "(string \<times> nat option) list"
  loggers :: "nat \<Rightarrow> logger"
  n_loggers :: nat
  queues :: "nat \<Rightarrow> entry option list"
  n_queues :: nat
  events :: "nat \<Rightarrow> bool"
  n_events :: nat
  files :: "nat \<Rightarrow> fileobj"
  n_files :: nat
  fs :: filesys
  backlog :: "(nat \<times> backlog_item list) option"
  colors :: bool
  compress :: "((string \<Rightarrow> string) \<times> string) option"
  useThreads :: bool
  encoding :: "string option"
  thrConsoleLogger :: "(int \<times> string) option list option"
  stdout :: "string list"
  stderr :: "string list"

definition upd_logger :: "nat \<Rightarrow> (logger \<Rightarrow> logger) \<Rightarrow> state \<Rightarrow> state" where
  "upd_logger self f s = s\<lparr>loggers := (loggers s)(self := f (loggers s self))\<rparr>"

definition event_set :: "nat \<Rightarrow> state \<Rightarrow> state" where
  "event_set e s = s\<lparr>events := (events s)(e := True)\<rparr>"

definition event_clear :: "nat \<Rightarrow> state \<Rightarrow> state" where
  "event_clear e s = s\<lparr>events := (events s)(e := False)\<rparr>"

text \<open>\<^verbatim>\<open>Logger.backlog.append(x)\<close> on a \<^verbatim>\<open>deque\<close> with \<^verbatim>\<open>maxlen\<close>, when there is a backlog.\<close>

definition backlog_append :: "backlog_item \<Rightarrow> state \<Rightarrow> state" where
  "backlog_append x s =
     (case backlog s of
        None \<Rightarrow> s
      | Some (maxlen, xs) \<Rightarrow>
          s\<lparr>backlog := Some (maxlen, drop (Suc (length xs) - maxlen) (xs @ [x]))\<rparr>)"

text \<open>The methods of a file object, and \<^verbatim>\<open>open(pathName, "a")\<close>.\<close>

definition file_write :: "nat \<Rightarrow> string \<Rightarrow> state \<Rightarrow> (error + unit) \<times> state" where
  "file_write f data s =
     (if fo_closed (files s f) then (Inl (ValueError ''I/O operation on closed file''), s)
      else (Inr (),
            s\<lparr>fs := (fs s)\<lparr>inodes := (inodes (fs s))
                 (fo_inode (files s f) := inodes (fs s) (fo_inode (files s f)) @ data)\<rparr>\<rparr>))"

definition file_flush :: "nat \<Rightarrow> state \<Rightarrow> (error + unit) \<times> state" where
  "file_flush f s =
     (if fo_closed (files s f) then (Inl (ValueError ''I/O operation on closed file''), s)
      else (Inr (), s))"

definition file_close :: "nat \<Rightarrow> state \<Rightarrow> state" where
  "file_close f s =
     s\<lparr>files := (files s)(f := (files s f)\<lparr>fo_closed := True,
                                            fo_closes := Suc (fo_closes (files s f))\<rparr>)\<rparr>"

definition file_tell :: "nat \<Rightarrow> state \<Rightarrow> int" where
  "file_tell f s = int (length (inodes (fs s) (fo_inode (files s f))))"

definition py_open :: "string \<Rightarrow> state \<Rightarrow> (error + nat) \<times> state" where
  "py_open p s =
     (case fs_open_append (fs s) p of
        (Inl e, fs') \<Rightarrow> (Inl e, s\<lparr>fs := fs'\<rparr>)
      | (Inr i, fs') \<Rightarrow>
          (Inr (n_files s),
           s\<lparr>fs := fs',
              files := (files s)(n_files s := \<lparr>fo_inode = i, fo_closed = False, fo_closes = 0\<rparr>),
              n_files := Suc (n_files s)\<rparr>))"

section \<open>Writing and rotation\<close>

text \<open>\<^verbatim>\<open>Logger.__writePending\<close>.\<close>

definition Logger__writePending :: "env \<Rightarrow> nat \<Rightarrow> state \<Rightarrow> (error + unit) \<times> state" where
  "Logger__writePending E self s =
     (let L = loggers s self
      in if buf L = [] then (Inr (), s)
         else (case cbWriter E of
                 None \<Rightarrow>
                   (let data = concat (buf L);
                        s1 = upd_logger self (\<lambda>L. L\<lparr>buf := [], size_buf := 0\<rparr>) s
                    in case F L of
                         None \<Rightarrow> (Inl AttributeError, s1)
                       | Some f \<Rightarrow> file_write f data s1)
               | Some w \<Rightarrow>
                   (case w L of
                      (r, b, n) \<Rightarrow>
                        (let s1 = upd_logger self (\<lambda>L. L\<lparr>buf := b, size_buf := n\<rparr>) s
                         in case r of
                              Inl e \<Rightarrow> (Inl e, s1)
                            | Inr data \<Rightarrow>
                                (case F L of
                                   None \<Rightarrow> (Inl AttributeError, s1)
                                 | Some f \<Rightarrow> file_write f data s1)))))"

text \<open>
  The cascading shift of \<^verbatim>\<open>Logger.__rotate\<close>: the body of its \<^verbatim>\<open>for cnt in
  range(backupCnt, 1, -1)\<close>, over the values of \<^verbatim>\<open>cnt\<close> that are left. A failing
  \<^verbatim>\<open>os.replace\<close> leaves the loop with the exception.
\<close>

fun shift_loop ::
  "filesys \<Rightarrow> string \<Rightarrow> string \<Rightarrow> string \<Rightarrow> string list \<Rightarrow> int list \<Rightarrow> (error + unit) \<times> filesys"
where
  "shift_loop fsys dirName logFileName zExt fileNames [] = (Inr (), fsys)"
| "shift_loop fsys dirName logFileName zExt fileNames (c # cs) =
     (let srcFileName = logFileName @ ''.'' @ str_int (c - 1) @ zExt
      in if srcFileName \<in> set fileNames
         then (case os_replace fsys (path_join dirName srcFileName)
                      (path_join dirName (logFileName @ ''.'' @ str_int c @ zExt)) of
                 (Inl e, fsys') \<Rightarrow> (Inl e, fsys')
               | (Inr u, fsys') \<Rightarrow> shift_loop fsys' dirName logFileName zExt fileNames cs)
         else shift_loop fsys dirName logFileName zExt fileNames cs)"

text \<open>\<^verbatim>\<open>range(backupCnt, 1, -1)\<close>: \<open>backupCnt\<close>, \<open>backupCnt - 1\<close>, ..., \<open>2\<close>.\<close>

definition shift_range :: "int \<Rightarrow> int list" where
  "shift_range n = rev [2..n]"

text \<open>The \<^verbatim>\<open>try: ... except: pass\<close> around the loop.\<close>

definition shift_backups ::
  "filesys \<Rightarrow> string \<Rightarrow> string \<Rightarrow> string \<Rightarrow> string list \<Rightarrow> int \<Rightarrow> filesys" where
  "shift_backups fsys dirName logFileName zExt fileNames n =
     snd (shift_loop fsys dirName logFileName zExt fileNames (shift_range n))"

text \<open>
  The end of \<^verbatim>\<open>Logger.__rotate\<close>, from \<^verbatim>\<open>dstFileName = ...\<close> on: the closed active file
  becomes backup 1 (renamed, or compressed and removed), and the active file is opened
  again. With a compressor the destination is opened, so created or truncated, before
  the active file is read.
\<close>

definition rotate_active :: "nat \<Rightarrow> string \<Rightarrow> string \<Rightarrow> state \<Rightarrow> (error + unit) \<times> state" where
  "rotate_active self p dst s =
     (case (case compress s of
              None \<Rightarrow> os_replace (fs s) p dst
            | Some (z, ext) \<Rightarrow>
                (case open_wb (fs s) dst of
                   (Inl e, fs1) \<Rightarrow> (Inl e, fs1)
                 | (Inr i, fs1) \<Rightarrow>
                     (case read_file fs1 p of
                        Inl e \<Rightarrow> (Inl e, fs1)
                      | Inr data \<Rightarrow> os_remove (fs1\<lparr>inodes := (inodes fs1)(i := z data)\<rparr>) p))) of
        (Inl e, fs') \<Rightarrow> (Inl e, s\<lparr>fs := fs'\<rparr>)
      | (Inr u, fs') \<Rightarrow>
          (case py_open p (s\<lparr>fs := fs'\<rparr>) of
             (Inl e, s1) \<Rightarrow> (Inl e, s1)
           | (Inr f, s1) \<Rightarrow> (Inr (), upd_logger self (\<lambda>L. L\<lparr>F := Some f\<rparr>) s1)))"

text \<open>\<^verbatim>\<open>Logger.__rotate\<close>.\<close>

definition Logger__rotate :: "env \<Rightarrow> nat \<Rightarrow> state \<Rightarrow> (error + unit) \<times> state" where
  "Logger__rotate E self s =
     (case Logger__writePending E self s of
        (Inl e, s1) \<Rightarrow> (Inl e, s1)
      | (Inr u, s1) \<Rightarrow>
          (case F (loggers s1 self) of
             None \<Rightarrow> (Inl AttributeError, s1)
           | Some f \<Rightarrow>
               (case file_flush f s1 of
                  (Inl e, s2) \<Rightarrow> (Inl e, s2)
                | (Inr u, s2) \<Rightarrow>
                    (let s3 = upd_logger self (\<lambda>L. L\<lparr>pos := 0\<rparr>) (file_close f s2)
                     in case pathName (loggers s3 self) of
                          None \<Rightarrow> (Inl TypeError, s3)
                        | Some p \<Rightarrow>
                            (case path_split p of
                               (dirName, logFileName) \<Rightarrow>
                                 (let zExt = (case compress s3 of None \<Rightarrow> [] | Some (z, ext) \<Rightarrow> ext)
                                  in case listdir (fs s3) dirName of
                                       Inl e \<Rightarrow> (Inl e, s3)
                                     | Inr ls \<Rightarrow>
                                         (let fileNames = filter (\<lambda>n. startswith n logFileName) ls;
                                              s4 = s3\<lparr>fs := shift_backups (fs s3) dirName logFileName
                                                     zExt fileNames
                                                     (backupCnt (common (loggers s3 self)))\<rparr>
                                          in rotate_active self p
                                               (path_join dirName (logFileName @ ''.1'' @ zExt))
                                               s4)))))))"

section \<open>Formatting and emitting one message\<close>

text \<open>The formatting step of \<^verbatim>\<open>Logger._logMessage\<close>.\<close>

definition format_message :: "env \<Rightarrow> logger \<Rightarrow> entry \<Rightarrow> error + string" where
  "format_message E L e =
     (case e of
        (logTime, d, lv, msg, kw) \<Rightarrow>
          (case cbFormatter E of
             None \<Rightarrow>
               (let sTime = strftime E (dateFmt E) logTime
                in case LOG2SYM E lv of
                     None \<Rightarrow> Inl KeyError
                   | Some lsym \<Rightarrow>
                       (case map_of kw ''exc_info'' of
                          Some x \<Rightarrow> Inr (sTime @ '': '' @ lsym @ '': '' @ msg @ nl @ py_str x)
                        | None \<Rightarrow> Inr (sTime @ '': '' @ lsym @ '': '' @ msg)))
           | Some f \<Rightarrow> f L e))"

text \<open>
  The body of the \<^verbatim>\<open>try\<close> of \<^verbatim>\<open>_logMessage\<close>. The result \<open>True\<close> says that the body left
  the method through its \<^verbatim>\<open>return\<close>.
\<close>

definition logMessage_file :: "env \<Rightarrow> nat \<Rightarrow> string \<Rightarrow> state \<Rightarrow> (error + bool) \<times> state" where
  "logMessage_file E self message s =
     (case F (loggers s self) of
        None \<Rightarrow> (Inr False, s)
      | Some f \<Rightarrow>
          (let sz = int (length message) + 1;
               s1 = upd_logger self
                      (\<lambda>L. L\<lparr>buf := buf L @ [message @ nl], size_buf := size_buf L + sz\<rparr>) s;
               mx = maxSize (common (loggers s1 self))
           in if mx = 0
              then (if size_buf (loggers s1 self) \<ge> 4096 \<or> \<not> useThreads s1
                    then (case Logger__writePending E self s1 of
                            (Inl e, s2) \<Rightarrow> (Inl e, s2)
                          | (Inr u, s2) \<Rightarrow> (Inr True, s2))
                    else (Inr True, s1))
              else (let s2 = upd_logger self (\<lambda>L. L\<lparr>pos := pos L + sz\<rparr>) s1
                    in if pos (loggers s2 self) \<ge> mx
                       then (if useThreads s2
                             then (Inr False, event_set (evtRotate (common (loggers s2 self))) s2)
                             else (case Logger__rotate E self s2 of
                                     (Inl e, s3) \<Rightarrow> (Inl e, s3)
                                   | (Inr u, s3) \<Rightarrow> (Inr False, s3)))
                       else (Inr False, s2))))"

text \<open>The \<^verbatim>\<open>except\<close> handler of \<^verbatim>\<open>_logMessage\<close> and of the writer thread.\<close>

definition report_error :: "env \<Rightarrow> error \<Rightarrow> state \<Rightarrow> state" where
  "report_error E err s =
     (let errMsg = format_exc E (Some err);
          s1 = backlog_append (BacklogError errMsg) s
      in s1\<lparr>stderr := stderr s1 @ [BRIGHTRED E @ errMsg @ NORMAL E]\<rparr>)"

text \<open>The console part of \<^verbatim>\<open>_logMessage\<close>.\<close>

definition logMessage_console :: "env \<Rightarrow> nat \<Rightarrow> entry \<Rightarrow> string \<Rightarrow> state \<Rightarrow> state" where
  "logMessage_console E self e message s =
     (case e of
        (logTime, d, lv, msg, kw) \<Rightarrow>
          (if console (loggers s self)
              \<or> (case map_of kw ''console'' of None \<Rightarrow> False | Some v \<Rightarrow> truthy v)
           then (let message' =
                       (if colors s
                        then (case map_of kw ''color'' of
                                Some v \<Rightarrow> py_str v
                              | None \<Rightarrow>
                                  (case LVL2COL E lv of
                                     Some c \<Rightarrow> c
                                   | None \<Rightarrow> str_int (FATAL E)))
                             @ message @ NORMAL E
                        else message)
                 in case thrConsoleLogger s of
                      None \<Rightarrow>
                        (if lv < ERROR E then s\<lparr>stdout := stdout s @ [message']\<rparr>
                         else s\<lparr>stderr := stderr s @ [message']\<rparr>)
                    | Some xs \<Rightarrow> s\<lparr>thrConsoleLogger := Some (xs @ [Some (lv, message')])\<rparr>)
           else s))"

text \<open>\<^verbatim>\<open>if hasattr(self, "client"): self.client.log(entry)\<close>.\<close>

definition logMessage_client :: "nat \<Rightarrow> entry \<Rightarrow> state \<Rightarrow> state" where
  "logMessage_client self e s =
     (case client (loggers s self) of
        None \<Rightarrow> s
      | Some (addr, sent) \<Rightarrow> upd_logger self (\<lambda>L. L\<lparr>client := Some (addr, sent @ [e])\<rparr>) s)"

text \<open>
  \<^verbatim>\<open>Logger._logMessage(key, entry, cnt)\<close>. The arguments \<open>k\<close> and \<open>ent\<close> are \<open>None\<close> for
  Python's \<^verbatim>\<open>None\<close>.
\<close>

definition Logger_logMessage ::
  "env \<Rightarrow> nat \<Rightarrow> string option \<Rightarrow> entry option \<Rightarrow> int \<Rightarrow> state \<Rightarrow> (error + unit) \<times> state" where
  "Logger_logMessage E self k ent c s =
     (let s0 = backlog_append (BacklogEntry ent) s
      in case ent of
           None \<Rightarrow> (Inl TypeError, s0)
         | Some e \<Rightarrow>
             (case format_message E (loggers s0 self) e of
                Inl err \<Rightarrow> (Inl err, s0)
              | Inr message0 \<Rightarrow>
                  (let message = (if k \<noteq> None \<and> c > 0
                                  then str_int c @ '' times: '' @ message0 else message0);
                       s1 = (if k \<noteq> None
                             then upd_logger self
                                    (\<lambda>L. L\<lparr>lastMsg := \<lparr>key = k, cnt = 1, entry = Some e\<rparr>\<rparr>) s0
                             else s0)
                   in case logMessage_file E self message s1 of
                        (Inr True, s2) \<Rightarrow> (Inr (), s2)
                      | (Inr False, s2) \<Rightarrow>
                          (Inr (), logMessage_client self e (logMessage_console E self e message s2))
                      | (Inl err, s2) \<Rightarrow>
                          (Inr (), logMessage_client self e
                                     (logMessage_console E self e message (report_error E err s2))))))"

section \<open>Coalescing of repeated messages\<close>

text \<open>\<^verbatim>\<open>Logger.__logEntry\<close>. Cancelling and joining the timer leaves no timer.\<close>

definition Logger__logEntry :: "env \<Rightarrow> nat \<Rightarrow> entry \<Rightarrow> state \<Rightarrow> (error + unit) \<times> state" where
  "Logger__logEntry E self e s =
     (let L = loggers s self;
          k = (case cbMessageKey E of
                 None \<Rightarrow> Some (fst (snd (snd (snd e))))
               | Some f \<Rightarrow> f L e);
          lm = lastMsg L
      in if k = key lm \<and> cnt lm < sameMsgCountMax E
         then (let s1 = upd_logger self
                          (\<lambda>L. L\<lparr>lastMsg := lm\<lparr>cnt := cnt lm + 1, entry := Some e\<rparr>\<rparr>) s
               in if thrTimer L = None
                  then (Inr (), upd_logger self
                                  (\<lambda>L. L\<lparr>thrTimer := Some \<lparr>tm_key = k, tm_entry = e, tm_cnt = 0,
                                                           tm_state = Armed\<rparr>\<rparr>) s1)
                  else (Inr (), s1))
         else if thrTimer L = None then Logger_logMessage E self k (Some e) 0 s
         else (case Logger_logMessage E self k (entry lm) (cnt lm)
                      (upd_logger self (\<lambda>L. L\<lparr>thrTimer := None\<rparr>) s) of
                 (Inl err, s2) \<Rightarrow> (Inl err, s2)
               | (Inr u, s2) \<Rightarrow> Logger_logMessage E self k (Some e) 0 s2))"

text \<open>
  The timer of a logger fires: its thread calls \<^verbatim>\<open>_logMessage\<close> with the arguments the
  timer was created with. An exception there ends the timer's thread with a traceback
  on the error stream. Only an armed timer fires.
\<close>

definition timer_fire :: "env \<Rightarrow> nat \<Rightarrow> state \<Rightarrow> state" where
  "timer_fire E self s =
     (case thrTimer (loggers s self) of
        None \<Rightarrow> s
      | Some tm \<Rightarrow>
          (if tm_state tm = Armed
           then (case Logger_logMessage E self (tm_key tm) (Some (tm_entry tm)) (tm_cnt tm)
                        (upd_logger self (\<lambda>L. L\<lparr>thrTimer := Some (tm\<lparr>tm_state := Fired\<rparr>)\<rparr>) s) of
                   (Inl err, s1) \<Rightarrow> s1\<lparr>stderr := stderr s1 @ [format_exc E (Some err)]\<rparr>
                 | (Inr u, s1) \<Rightarrow> s1)
           else s))"

section \<open>The logging calls\<close>

text \<open>
  \<^verbatim>\<open>Logger.__log\<close>. The argument \<open>t\<close> is what \<^verbatim>\<open>time.time()\<close> returns during the call.
\<close>

definition Logger__log ::
  "env \<Rightarrow> nat \<Rightarrow> int \<Rightarrow> string \<Rightarrow> pyval list \<Rightarrow> kwargs \<Rightarrow> nat \<Rightarrow> state \<Rightarrow> (error + unit) \<times> state"
where
  "Logger__log E self lv msg args kw t s =
     (let L = loggers s self
      in if stopped L then (Inl (RuntimeError ''Logger already stopped''), s)
         else (case (if args \<noteq> [] then percent E msg args else Inr msg) of
                 Inl err \<Rightarrow> (Inl err, s)
               | Inr m \<Rightarrow>
                   (if useThreads s = False \<or> thrLogger L = None
                    then (if sameMsgCountMax E > 0
                          then Logger__logEntry E self (t, domain L, lv, m, kw) s
                          else Logger_logMessage E self None (Some (t, domain L, lv, m, kw)) 0 s)
                    else (Inr (),
                          event_set (evtQueue (common L))
                            (s\<lparr>queues := (queues s)
                                 (queue (common L) :=
                                    queues s (queue (common L)) @ [Some (t, domain L, lv, m, kw)])\<rparr>)))))"

definition Logger_log ::
  "env \<Rightarrow> nat \<Rightarrow> int \<Rightarrow> string \<Rightarrow> pyval list \<Rightarrow> kwargs \<Rightarrow> nat \<Rightarrow> state \<Rightarrow> (error + unit) \<times> state"
where
  "Logger_log E self lv msg args kw t s = Logger__log E self lv msg args kw t s"

definition Logger_debug ::
  "env \<Rightarrow> nat \<Rightarrow> string \<Rightarrow> pyval list \<Rightarrow> kwargs \<Rightarrow> nat \<Rightarrow> state \<Rightarrow> (error + unit) \<times> state" where
  "Logger_debug E self msg args kw t s =
     (if level (loggers s self) \<le> DEBUG E then Logger__log E self (DEBUG E) msg args kw t s
      else (Inr (), s))"

definition Logger_info ::
  "env \<Rightarrow> nat \<Rightarrow> string \<Rightarrow> pyval list \<Rightarrow> kwargs \<Rightarrow> nat \<Rightarrow> state \<Rightarrow> (error + unit) \<times> state" where
  "Logger_info E self msg args kw t s =
     (if level (loggers s self) \<le> INFO E then Logger__log E self (INFO E) msg args kw t s
      else (Inr (), s))"

definition Logger_warning ::
  "env \<Rightarrow> nat \<Rightarrow> string \<Rightarrow> pyval list \<Rightarrow> kwargs \<Rightarrow> nat \<Rightarrow> state \<Rightarrow> (error + unit) \<times> state" where
  "Logger_warning E self msg args kw t s =
     (if level (loggers s self) \<le> WARNING E then Logger__log E self (WARNING E) msg args kw t s
      else (Inr (), s))"

definition Logger_error ::
  "env \<Rightarrow> nat \<Rightarrow> string \<Rightarrow> pyval list \<Rightarrow> kwargs \<Rightarrow> nat \<Rightarrow> state \<Rightarrow> (error + unit) \<times> state" where
  "Logger_error E self msg args kw t s =
     (if level (loggers s self) \<le> ERROR E then Logger__log E self (ERROR E) msg args kw t s
      else (Inr (), s))"

definition Logger_fatal ::
  "env \<Rightarrow> nat \<Rightarrow> string \<Rightarrow> pyval list \<Rightarrow> kwargs \<Rightarrow> nat \<Rightarrow> state \<Rightarrow> (error + unit) \<times> state" where
  "Logger_fatal E self msg args kw t s =
     (if level (loggers s self) \<le> FATAL E then Logger__log E self (FATAL E) msg args kw t s
      else (Inr (), s))"

definition Logger_critical ::
  "env \<Rightarrow> nat \<Rightarrow> string \<Rightarrow> pyval list \<Rightarrow> kwargs \<Rightarrow> nat \<Rightarrow> state \<Rightarrow> (error + unit) \<times> state" where
  "Logger_critical E self msg args kw t s =
     (if level (loggers s self) \<le> FATAL E then Logger__log E self (FATAL E) msg args kw t s
      else (Inr (), s))"

text \<open>
  \<^verbatim>\<open>Logger.exception\<close>; \<open>exc\<close> is the exception being handled when the call is made,
  which \<^verbatim>\<open>traceback.format_exc()\<close> prints.
\<close>

definition Logger_exception ::
  "env \<Rightarrow> nat \<Rightarrow> string \<Rightarrow> pyval list \<Rightarrow> kwargs \<Rightarrow> nat \<Rightarrow> error option \<Rightarrow> state
     \<Rightarrow> (error + unit) \<times> state" where
  "Logger_exception E self msg args kw t exc s =
     (if level (loggers s self) \<le> EXCEPTION E
      then Logger__log E self (EXCEPTION E) msg args
             (AList.update ''exc_info'' (PyStr (format_exc E exc)) kw) t s
      else (Inr (), s))"

definition setLevel :: "nat \<Rightarrow> int \<Rightarrow> state \<Rightarrow> state" where
  "setLevel self lv s = upd_logger self (\<lambda>L. L\<lparr>level := lv\<rparr>) s"

section \<open>Stopping\<close>

text \<open>\<^verbatim>\<open>Logger.stop\<close>.\<close>

definition Logger_stop :: "env \<Rightarrow> nat \<Rightarrow> bool \<Rightarrow> state \<Rightarrow> (error + unit) \<times> state" where
  "Logger_stop E self now s =
     (let L = loggers s self
      in case (if thrTimer L \<noteq> None
               then Logger_logMessage E self (key (lastMsg L)) (entry (lastMsg L)) (cnt (lastMsg L))
                      (upd_logger self (\<lambda>L. L\<lparr>thrTimer := None\<rparr>) s)
               else (Inr (), s)) of
           (Inl err, s1) \<Rightarrow> (Inl err, s1)
         | (Inr u, s1) \<Rightarrow>
             (let q = queue (common (loggers s1 self));
                  s2 = (if now then s1\<lparr>queues := (queues s1)(q := [])\<rparr> else s1);
                  s3 = s2\<lparr>queues := (queues s2)(q := queues s2 q @ [None])\<rparr>;
                  s4 = event_set (evtQueue (common (loggers s3 self))) s3
              in (Inr (), upd_logger self (\<lambda>L. L\<lparr>stopped := True\<rparr>) s4)))"

section \<open>The writer thread\<close>

text \<open>
  An exception that leaves \<^verbatim>\<open>Logger.__logThread\<close> ends the thread; the interpreter prints
  its traceback on the error stream.
\<close>

definition thread_die :: "env \<Rightarrow> nat \<Rightarrow> error \<Rightarrow> state \<Rightarrow> state" where
  "thread_die E self err s =
     upd_logger self (\<lambda>L. L\<lparr>thrLogger := Some Finished\<rparr>)
       (s\<lparr>stderr := stderr s @ [format_exc E (Some err)]\<rparr>)"

text \<open>
  One step of \<^verbatim>\<open>Logger.__logThread\<close>: from the top of the loop, one \<^verbatim>\<open>popleft\<close> and what
  follows it up to the next \<^verbatim>\<open>popleft\<close> or the \<^verbatim>\<open>wait()\<close>; from inside the \<^verbatim>\<open>wait()\<close>, once
  the event is set, the rest of the handler. A thread inside the \<^verbatim>\<open>wait()\<close> of an event
  that is not set, and a thread that has ended, do not move.
\<close>

definition logThread_step :: "env \<Rightarrow> nat \<Rightarrow> state \<Rightarrow> state" where
  "logThread_step E self s =
     (let L = loggers s self; q = queue (common L)
      in case thrLogger L of
           None \<Rightarrow> s
         | Some Finished \<Rightarrow> s
         | Some AtLoop \<Rightarrow>
             (case queues s q of
                [] \<Rightarrow>
                  (case (if F L \<noteq> None \<and> buf L \<noteq> [] then Logger__writePending E self s
                         else (Inr (), s)) of
                     (Inl err, s1) \<Rightarrow> thread_die E self err s1
                   | (Inr u, s1) \<Rightarrow> upd_logger self (\<lambda>L. L\<lparr>thrLogger := Some InWait\<rparr>) s1)
              | None # rest \<Rightarrow>
                  (let s1 = s\<lparr>queues := (queues s)(q := rest)\<rparr>
                   in case F L of
                        None \<Rightarrow> upd_logger self (\<lambda>L. L\<lparr>thrLogger := Some Finished\<rparr>) s1
                      | Some f \<Rightarrow>
                          (case (if buf L \<noteq> [] then Logger__writePending E self s1
                                 else (Inr (), s1)) of
                             (Inl err, s2) \<Rightarrow> thread_die E self err s2
                           | (Inr u, s2) \<Rightarrow>
                               (case file_flush f s2 of
                                  (Inl err, s3) \<Rightarrow> thread_die E self err s3
                                | (Inr u, s3) \<Rightarrow>
                                    upd_logger self
                                      (\<lambda>L. L\<lparr>F := None, thrLogger := Some Finished\<rparr>)
                                      (file_close f s3))))
              | Some e # rest \<Rightarrow>
                  (case (if sameMsgCountMax E > 0
                         then Logger__logEntry E self e (s\<lparr>queues := (queues s)(q := rest)\<rparr>)
                         else Logger_logMessage E self None (Some e) 0
                                (s\<lparr>queues := (queues s)(q := rest)\<rparr>)) of
                     (Inl err, s2) \<Rightarrow> report_error E err s2
                   | (Inr u, s2) \<Rightarrow> s2))
         | Some InWait \<Rightarrow>
             (if events s (evtQueue (common L))
              then (let s1 = event_clear (evtQueue (common L)) s
                    in if events s1 (evtRotate (common L))
                       then (case Logger__rotate E self (event_clear (evtRotate (common L)) s1) of
                               (Inl err, s2) \<Rightarrow> thread_die E self err s2
                             | (Inr u, s2) \<Rightarrow>
                                 upd_logger self (\<lambda>L. L\<lparr>thrLogger := Some AtLoop\<rparr>) s2)
                       else upd_logger self (\<lambda>L. L\<lparr>thrLogger := Some AtLoop\<rparr>) s1)
              else s))"

definition thread_can_step :: "nat \<Rightarrow> state \<Rightarrow> bool" where
  "thread_can_step self s =
     (case thrLogger (loggers s self) of
        None \<Rightarrow> False
      | Some Finished \<Rightarrow> False
      | Some AtLoop \<Rightarrow> True
      | Some InWait \<Rightarrow> events s (evtQueue (common (loggers s self))))"

subsection \<open>What running a thread leaves alone, and why it comes to rest\<close>

text \<open>
  Writing, rotating and emitting a message change neither a queue nor the thread or the
  \<^verbatim>\<open>CommonConfig\<close> of a logger.
\<close>

definition thr_view :: "state \<Rightarrow> (nat \<Rightarrow> entry option list) \<times> (nat \<Rightarrow> thread_state option \<times> common_config)" where
  "thr_view s = (queues s, \<lambda>l. (thrLogger (loggers s l), common (loggers s l)))"

lemma thr_view_upd [simp]:
  "thrLogger (f (loggers s l)) = thrLogger (loggers s l) \<Longrightarrow> common (f (loggers s l)) = common (loggers s l)
   \<Longrightarrow> thr_view (upd_logger l f s) = thr_view s"
  by (auto simp: thr_view_def upd_logger_def fun_eq_iff)

lemma thr_view_simps [simp]:
  "thr_view (s\<lparr>fs := x1\<rparr>) = thr_view s"
  "thr_view (s\<lparr>files := x2\<rparr>) = thr_view s"
  "thr_view (s\<lparr>n_files := x3\<rparr>) = thr_view s"
  "thr_view (s\<lparr>events := x4\<rparr>) = thr_view s"
  "thr_view (s\<lparr>backlog := x5\<rparr>) = thr_view s"
  "thr_view (s\<lparr>stdout := x6\<rparr>) = thr_view s"
  "thr_view (s\<lparr>stderr := x7\<rparr>) = thr_view s"
  "thr_view (s\<lparr>thrConsoleLogger := x8\<rparr>) = thr_view s"
  by (simp_all add: thr_view_def)

lemma file_write_frame: "file_write f d s = (r, s') \<Longrightarrow> thr_view s' = thr_view s"
  by (auto simp: file_write_def split: if_splits)

lemma file_flush_frame: "file_flush f s = (r, s') \<Longrightarrow> s' = s"
  by (auto simp: file_flush_def split: if_splits)

lemma file_close_frame [simp]: "thr_view (file_close f s) = thr_view s"
  by (simp add: file_close_def)

lemma py_open_frame: "py_open p s = (r, s') \<Longrightarrow> thr_view s' = thr_view s"
  by (auto simp: py_open_def split: prod.splits sum.splits)

lemma writePending_frame: "Logger__writePending E self s = (r, s') \<Longrightarrow> thr_view s' = thr_view s"
  by (auto simp: Logger__writePending_def Let_def split: if_splits option.splits prod.splits sum.splits
      dest!: file_write_frame)

lemma rotate_active_frame: "rotate_active self p dst s = (r, s') \<Longrightarrow> thr_view s' = thr_view s"
  by (auto simp: rotate_active_def Let_def split: if_splits option.splits prod.splits sum.splits
      dest!: py_open_frame)

lemma rotate_frame: "Logger__rotate E self s = (r, s') \<Longrightarrow> thr_view s' = thr_view s"
  by (auto simp: Logger__rotate_def Let_def split: if_splits option.splits prod.splits sum.splits
      dest!: writePending_frame file_flush_frame rotate_active_frame)

lemma report_error_frame [simp]: "thr_view (report_error E err s) = thr_view s"
  by (simp add: report_error_def backlog_append_def Let_def split: option.splits)

lemma backlog_append_frame [simp]: "thr_view (backlog_append x s) = thr_view s"
  by (simp add: backlog_append_def split: option.splits)

lemma event_set_frame [simp]: "thr_view (event_set e s) = thr_view s"
  by (simp add: event_set_def)

lemma event_clear_frame [simp]: "thr_view (event_clear e s) = thr_view s"
  by (simp add: event_clear_def)

lemma logMessage_console_frame [simp]: "thr_view (logMessage_console E self e m s) = thr_view s"
  by (simp add: logMessage_console_def split: prod.splits option.splits)

lemma logMessage_client_frame [simp]: "thr_view (logMessage_client self e s) = thr_view s"
  by (simp add: logMessage_client_def split: prod.splits option.splits)

lemma logMessage_file_frame: "logMessage_file E self m s = (r, s') \<Longrightarrow> thr_view s' = thr_view s"
  by (auto simp: logMessage_file_def Let_def split: if_splits option.splits prod.splits sum.splits
      dest!: writePending_frame rotate_frame)

lemma logMessage_frame: "Logger_logMessage E self k ent c s = (r, s') \<Longrightarrow> thr_view s' = thr_view s"
  by (auto simp: Logger_logMessage_def Let_def split: if_splits option.splits prod.splits sum.splits bool.splits
      dest!: logMessage_file_frame)

lemma logEntry_frame: "Logger__logEntry E self e s = (r, s') \<Longrightarrow> thr_view s' = thr_view s"
  by (auto simp: Logger__logEntry_def Let_def split: if_splits option.splits prod.splits sum.splits
      dest!: logMessage_frame)

lemma file_write_events: "file_write f d s = (r, s') \<Longrightarrow> events s' = events s"
  by (auto simp: file_write_def split: if_splits)

lemma py_open_events: "py_open p s = (r, s') \<Longrightarrow> events s' = events s"
  by (auto simp: py_open_def split: prod.splits sum.splits)

lemma upd_logger_events [simp]: "events (upd_logger l f s) = events s"
  by (simp add: upd_logger_def)

lemma file_close_events [simp]: "events (file_close f s) = events s"
  by (simp add: file_close_def)

lemma writePending_events: "Logger__writePending E self s = (r, s') \<Longrightarrow> events s' = events s"
  by (auto simp: Logger__writePending_def Let_def split: if_splits option.splits prod.splits sum.splits
      dest!: file_write_events)

lemma rotate_active_events: "rotate_active self p dst s = (r, s') \<Longrightarrow> events s' = events s"
  by (auto simp: rotate_active_def Let_def split: if_splits option.splits prod.splits sum.splits
      dest!: py_open_events)

lemma rotate_events: "Logger__rotate E self s = (r, s') \<Longrightarrow> events s' = events s"
  by (auto simp: Logger__rotate_def Let_def split: if_splits option.splits prod.splits sum.splits
      dest!: writePending_events file_flush_frame rotate_active_events)

definition thread_measure :: "nat \<Rightarrow> state \<Rightarrow> nat" where
  "thread_measure self s =
     3 * length (queues s (queue (common (loggers s self))))
     + (case thrLogger (loggers s self) of
          None \<Rightarrow> 0
        | Some Finished \<Rightarrow> 0
        | Some AtLoop \<Rightarrow> (if events s (evtQueue (common (loggers s self))) then 3 else 1)
        | Some InWait \<Rightarrow> (if events s (evtQueue (common (loggers s self))) then 2 else 0))"

lemma thr_viewD:
  "thr_view s' = thr_view s \<Longrightarrow>
     queues s' = queues s \<and> thrLogger (loggers s' l) = thrLogger (loggers s l)
     \<and> common (loggers s' l) = common (loggers s l)"
  by (auto simp: thr_view_def fun_eq_iff)

lemma thread_measure_cong:
  "thr_view s' = thr_view s \<Longrightarrow> events s' = events s \<Longrightarrow> thread_measure self s' = thread_measure self s"
  using thr_viewD[of s' s self] by (simp add: thread_measure_def)


lemma upd_thr_measure:
  "thread_measure self (upd_logger self (\<lambda>L. L\<lparr>thrLogger := Some st\<rparr>) s) =
     3 * length (queues s (queue (common (loggers s self))))
     + (case st of Finished \<Rightarrow> 0
        | AtLoop \<Rightarrow> (if events s (evtQueue (common (loggers s self))) then 3 else 1)
        | InWait \<Rightarrow> (if events s (evtQueue (common (loggers s self))) then 2 else 0))"
  by (simp add: thread_measure_def upd_logger_def)

lemma die_thr_measure:
  "thread_measure self (thread_die E self err s) =
     3 * length (queues s (queue (common (loggers s self))))"
  by (simp add: thread_measure_def thread_die_def upd_logger_def)

lemma frameD:
  "thr_view s' = thr_view s \<Longrightarrow>
     queues s' = queues s
     \<and> (\<forall>l. thrLogger (loggers s' l) = thrLogger (loggers s l)
            \<and> common (loggers s' l) = common (loggers s l))"
  by (auto simp: thr_view_def fun_eq_iff)

lemma writePending_frameD:
  "Logger__writePending E self s = (r, s') \<Longrightarrow>
     queues s' = queues s \<and> events s' = events s
     \<and> (\<forall>l. thrLogger (loggers s' l) = thrLogger (loggers s l)
            \<and> common (loggers s' l) = common (loggers s l))"
  using writePending_frame[THEN frameD] writePending_events by blast

lemma rotate_frameD:
  "Logger__rotate E self s = (r, s') \<Longrightarrow>
     queues s' = queues s \<and> events s' = events s
     \<and> (\<forall>l. thrLogger (loggers s' l) = thrLogger (loggers s l)
            \<and> common (loggers s' l) = common (loggers s l))"
  using rotate_frame[THEN frameD] rotate_events by blast

lemma logMessage_frameD:
  "Logger_logMessage E self k ent c s = (r, s') \<Longrightarrow>
     queues s' = queues s
     \<and> (\<forall>l. thrLogger (loggers s' l) = thrLogger (loggers s l)
            \<and> common (loggers s' l) = common (loggers s l))"
  using logMessage_frame[THEN frameD] by blast

lemma logEntry_frameD:
  "Logger__logEntry E self e s = (r, s') \<Longrightarrow>
     queues s' = queues s
     \<and> (\<forall>l. thrLogger (loggers s' l) = thrLogger (loggers s l)
            \<and> common (loggers s' l) = common (loggers s l))"
  using logEntry_frame[THEN frameD] by blast

lemma report_error_frameD:
  "queues (report_error E err s) = queues s
   \<and> thrLogger (loggers (report_error E err s) l) = thrLogger (loggers s l)
   \<and> common (loggers (report_error E err s) l) = common (loggers s l)"
  using frameD[OF report_error_frame] by blast

lemma thread_measure_le:
  "thread_measure self s \<le> 3 * length (queues s (queue (common (loggers s self)))) + 3"
  by (simp add: thread_measure_def split: option.splits thread_state.splits)

lemma step_decreases:
  "thread_can_step self s \<Longrightarrow> thread_measure self (logThread_step E self s) < thread_measure self s"
proof -
  assume cs: "thread_can_step self s"
  let ?L = "loggers s self"
  let ?q = "queue (common ?L)"
  show ?thesis
  proof (cases "thrLogger ?L")
    case None
    with cs show ?thesis by (simp add: thread_can_step_def)
  next
    case (Some st)
    show ?thesis
    proof (cases st)
      case Finished
      with cs Some show ?thesis by (simp add: thread_can_step_def)
    next
      case InWait
      with cs Some have ev: "events s (evtQueue (common ?L))" by (simp add: thread_can_step_def)
      have m0: "thread_measure self s = 3 * length (queues s ?q) + 2"
        using Some InWait ev by (simp add: thread_measure_def)
      show ?thesis unfolding m0 using Some InWait ev
        by (auto simp: logThread_step_def Let_def event_clear_def upd_thr_measure die_thr_measure
            split: sum.splits prod.splits dest!: rotate_frameD)
    next
      case AtLoop
      show ?thesis
      proof (cases "queues s ?q")
        case Nil
        have m0: "thread_measure self s = (if events s (evtQueue (common ?L)) then 3 else 1)"
          using Some AtLoop Nil by (simp add: thread_measure_def)
        show ?thesis unfolding m0 using Some AtLoop Nil
          by (auto simp: logThread_step_def Let_def upd_thr_measure die_thr_measure
              split: sum.splits prod.splits dest!: writePending_frameD)
      next
        case (Cons x rest)
        have m0: "thread_measure self s \<ge> 3 * length rest + 4"
          using Some AtLoop Cons by (simp add: thread_measure_def)
        have "thread_measure self (logThread_step E self s) \<le> 3 * length rest + 3"
        proof (cases x)
          case None
          show ?thesis using Some AtLoop Cons None
            by (auto simp: logThread_step_def Let_def thread_measure_def upd_logger_def thread_die_def
                file_close_def
                split: sum.splits prod.splits option.splits
                dest!: writePending_frameD file_flush_frame)
        next
          case (Some e)
          let ?sp = "s\<lparr>queues := (queues s)(?q := rest)\<rparr>"
          obtain r s2 where pr: "(if sameMsgCountMax E > 0 then Logger__logEntry E self e ?sp
                         else Logger_logMessage E self None (Some e) 0 ?sp) = (r, s2)"
            by (cases "(if sameMsgCountMax E > 0 then Logger__logEntry E self e ?sp
                         else Logger_logMessage E self None (Some e) 0 ?sp)")
          then have v: "queues s2 = queues ?sp" "common (loggers s2 self) = common ?L"
            by (auto split: if_splits dest!: logEntry_frameD logMessage_frameD)
          have st: "logThread_step E self s = (case r of Inl err \<Rightarrow> report_error E err s2 | Inr u \<Rightarrow> s2)"
            using \<open>thrLogger ?L = Some st\<close> AtLoop Cons Some pr
            by (simp add: logThread_step_def Let_def split: sum.splits)
          show ?thesis
          proof (cases r)
            case (Inl err)
            then show ?thesis
              using thread_measure_le[of self "report_error E err s2"] v st
              by (simp add: report_error_frameD)
          next
            case (Inr u)
            then show ?thesis using thread_measure_le[of self s2] v st by simp
          qed
        qed
        then show ?thesis using m0 by simp
      qed
    qed
  qed
qed

text \<open>
  The thread of a logger, run until it has ended or waits for an event that is not set:
  what \<^verbatim>\<open>thrLogger.join()\<close> waits for when no other thread runs.
\<close>

function logThread_run :: "env \<Rightarrow> nat \<Rightarrow> state \<Rightarrow> state" where
  "logThread_run E self s =
     (if thread_can_step self s then logThread_run E self (logThread_step E self s) else s)"
  by pat_completeness auto
termination
  by (relation "measure (\<lambda>(E, self, s). thread_measure self s)") (auto simp: step_decreases)

section \<open>Joining, shutting down, and the registry\<close>

text \<open>
  \<^verbatim>\<open>Logger.join\<close>. Joining the writer thread returns when the thread has ended; when the
  thread comes to rest inside its \<^verbatim>\<open>wait()\<close> instead, the call does not return.
\<close>

definition Logger_join :: "env \<Rightarrow> nat \<Rightarrow> state \<Rightarrow> (error + unit) \<times> state" where
  "Logger_join E self s =
     (case (case thrLogger (loggers s self) of
              None \<Rightarrow> (Inr (), s)
            | Some st \<Rightarrow>
                (let s1 = logThread_run E self s
                 in if thrLogger (loggers s1 self) = Some Finished
                    then (Inr (), upd_logger self (\<lambda>L. L\<lparr>thrLogger := None\<rparr>) s1)
                    else (Inl Blocked, s1))) of
        (Inl err, s1) \<Rightarrow> (Inl err, s1)
      | (Inr u, s1) \<Rightarrow>
          (case map_of (domains s1) (domain (loggers s1 self)) of
             None \<Rightarrow> (Inl KeyError, s1)
           | Some v \<Rightarrow>
               (let s2 = s1\<lparr>domains := AList.delete (domain (loggers s1 self)) (domains s1)\<rparr>
                in if domains s2 = [] \<and> thrConsoleLogger s2 \<noteq> None
                   then (Inr (), s2\<lparr>thrConsoleLogger := None\<rparr>)
                   else (Inr (), s2))))"

text \<open>\<^verbatim>\<open>Logger.shutdown\<close>.\<close>

definition Logger_shutdown :: "env \<Rightarrow> nat \<Rightarrow> bool \<Rightarrow> state \<Rightarrow> (error + unit) \<times> state" where
  "Logger_shutdown E self now s =
     (case Logger_stop E self now s of
        (Inl err, s1) \<Rightarrow> (Inl err, s1)
      | (Inr u, s1) \<Rightarrow> Logger_join E self s1)"

text \<open>
  The \<^verbatim>\<open>for logger in domains.values()\<close> of \<^verbatim>\<open>Logger.__init__\<close>: the first registered
  logger with the same \<^verbatim>\<open>pathName\<close>; a registered \<^verbatim>\<open>None\<close> has no such attribute.
\<close>

fun find_shared :: "state \<Rightarrow> string \<Rightarrow> nat option list \<Rightarrow> error + nat option" where
  "find_shared s p [] = Inr None"
| "find_shared s p (None # vs) = Inl AttributeError"
| "find_shared s p (Some l # vs) =
     (if Some p = pathName (loggers s l) then Inr (Some l) else find_shared s p vs)"

text \<open>The part of \<^verbatim>\<open>Logger.__init__\<close> that shares or opens the file.\<close>

definition init_file :: "nat \<Rightarrow> string option \<Rightarrow> state \<Rightarrow> (error + unit) \<times> state" where
  "init_file self pth s =
     (case pth of
        None \<Rightarrow> (Inr (), s)
      | Some p \<Rightarrow>
          (if isdir (fs s) (dirname p)
           then (case find_shared s p (map snd (domains s)) of
                   Inl err \<Rightarrow> (Inl err, s)
                 | Inr (Some l) \<Rightarrow>
                     (Inr (),
                      upd_logger self
                        (\<lambda>L. L\<lparr>common :=
                                 \<lparr>queue = queue (common (loggers s l)),
                                  evtQueue = evtQueue (common (loggers s l)),
                                  evtRotate = evtRotate (common (loggers s l)),
                                  maxSize = maxSize (common (loggers s l)),
                                  backupCnt = backupCnt (common (loggers s l))\<rparr>\<rparr>) s)
                 | Inr None \<Rightarrow>
                     (case py_open p s of
                        (Inl err, s1) \<Rightarrow> (Inl err, s1)
                      | (Inr f, s1) \<Rightarrow>
                          (Inr (),
                           upd_logger self
                             (\<lambda>L. L\<lparr>F := Some f, pos := file_tell f s1,
                                    thrLogger := (if useThreads s1 then Some AtLoop else None)\<rparr>)
                             s1)))
           else (Inr (), s)))"

text \<open>
  \<^verbatim>\<open>Logger.__init__\<close>; the result is the new object. The queue and the two events of its
  \<^verbatim>\<open>CommonConfig\<close> are new objects.
\<close>

definition Logger_init ::
  "env \<Rightarrow> string \<Rightarrow> int \<Rightarrow> string option \<Rightarrow> int \<Rightarrow> int \<Rightarrow> bool
     \<Rightarrow> (string \<times> nat) option \<Rightarrow> (string \<times> nat) option \<Rightarrow> state \<Rightarrow> (error + nat) \<times> state"
where
  "Logger_init E dmn lvl pth mx bk cons srv conn s =
     (if mx < 0 \<or> bk < 0 \<or> (mx > 0 \<and> bk = 0)
      then (Inl (ValueError ''Invalid maxSize or backupCnt''), s)
      else (let self = n_loggers s;
                s0 = s\<lparr>loggers := (loggers s)
                         (self :=
                            \<lparr>domain = dmn, level = lvl,
                             common = \<lparr>queue = n_queues s, evtQueue = n_events s,
                                       evtRotate = Suc (n_events s), maxSize = mx,
                                       backupCnt = bk\<rparr>,
                             lastMsg = \<lparr>key = None, cnt = 1, entry = None\<rparr>,
                             pathName = pth, F = None, buf = [], size_buf = 0, pos = 0,
                             console = cons, thrTimer = None, thrLogger = None,
                             stopped = False, server = None, client = None\<rparr>),
                       n_loggers := Suc self,
                       queues := (queues s)(n_queues s := []),
                       n_queues := Suc (n_queues s),
                       events := (events s)(n_events s := False, Suc (n_events s) := False),
                       n_events := Suc (Suc (n_events s))\<rparr>
            in case init_file self pth s0 of
                 (Inl err, s1) \<Rightarrow> (Inl err, s1)
               | (Inr u, s1) \<Rightarrow>
                   (let s2 = (if useThreads s1 \<and> thrConsoleLogger s1 = None
                              then s1\<lparr>thrConsoleLogger := Some []\<rparr> else s1);
                        s3 = (case srv of
                                None \<Rightarrow> s2
                              | Some a \<Rightarrow> upd_logger self (\<lambda>L. L\<lparr>server := Some a\<rparr>) s2);
                        s4 = (case conn of
                                None \<Rightarrow> s3
                              | Some a \<Rightarrow> upd_logger self (\<lambda>L. L\<lparr>client := Some (a, [])\<rparr>) s3)
                    in (Inr self, s4))))"

text \<open>\<^verbatim>\<open>del domains[d]\<close>.\<close>

definition del_domain :: "string \<Rightarrow> state \<Rightarrow> (error + unit) \<times> state" where
  "del_domain d s =
     (case map_of (domains s) d of
        None \<Rightarrow> (Inl KeyError, s)
      | Some v \<Rightarrow> (Inr (), s\<lparr>domains := AList.delete d (domains s)\<rparr>))"

text \<open>\<^verbatim>\<open>GetLogger\<close>.\<close>

definition GetLogger ::
  "env \<Rightarrow> string option \<Rightarrow> int \<Rightarrow> string option \<Rightarrow> int \<Rightarrow> int \<Rightarrow> bool
     \<Rightarrow> (string \<times> nat) option \<Rightarrow> (string \<times> nat) option \<Rightarrow> state \<Rightarrow> (error + nat) \<times> state"
where
  "GetLogger E dmn lvl pth mx bk cons srv conn s =
     (if domains s = [] then (Inl (ValueError ''Call LogInit first''), s)
      else (let d = (case dmn of None \<Rightarrow> ''root'' | Some x \<Rightarrow> x)
            in case (case map_of (domains s) d of
                       None \<Rightarrow> (Inr (), s)
                     | Some v \<Rightarrow>
                         (case (case v of
                                  None \<Rightarrow> (Inr (), s)
                                | Some l \<Rightarrow>
                                    (case Logger_stop E l False s of
                                       (Inl err, s1) \<Rightarrow> (Inl err, s1)
                                     | (Inr u, s1) \<Rightarrow> Logger_join E l s1)) of
                            (Inl err, s1) \<Rightarrow> (Inl err, s1)
                          | (Inr u, s1) \<Rightarrow> del_domain d s1)) of
                 (Inl err, s1) \<Rightarrow> (Inl err, s1)
               | (Inr u, s1) \<Rightarrow>
                   (case Logger_init E d lvl pth mx bk cons srv conn s1 of
                      (Inl err, s2) \<Rightarrow> (Inl err, s2)
                    | (Inr l, s2) \<Rightarrow>
                        (Inr l, s2\<lparr>domains := AList.update d (Some l) (domains s2)\<rparr>))))"

text \<open>
  \<^verbatim>\<open>LogInit\<close>; \<open>t\<close> is the time of the call, for the warning it may log.
\<close>

definition LogInit ::
  "env \<Rightarrow> string option \<Rightarrow> int \<Rightarrow> string option \<Rightarrow> int \<Rightarrow> int \<Rightarrow> bool \<Rightarrow> bool
     \<Rightarrow> ((string \<Rightarrow> string) \<times> string) option \<Rightarrow> bool \<Rightarrow> string option
     \<Rightarrow> (string \<times> nat) option \<Rightarrow> (string \<times> nat) option \<Rightarrow> nat \<Rightarrow> state
     \<Rightarrow> (error + nat) \<times> state"
where
  "LogInit E dmn lvl pth mx bk cons cols cmpr useThr enc srv conn t s =
     (let d = (case dmn of None \<Rightarrow> ''root'' | Some x \<Rightarrow> x);
          s1 = s\<lparr>colors := cols, compress := cmpr, useThreads := useThr, encoding := enc,
                 domains := AList.update d None (domains s)\<rparr>
      in case GetLogger E (Some d) lvl pth mx bk cons srv conn s1 of
           (Inl err, s2) \<Rightarrow> (Inl err, s2)
         | (Inr l, s2) \<Rightarrow>
             (if cols \<and> NORMAL E = []
              then (case Logger_warning E l
                           ''Module colorama not installed! Colored log not available''
                           [] [] t s2 of
                      (Inl err, s3) \<Rightarrow> (Inl err, s3)
                    | (Inr u, s3) \<Rightarrow> (Inr l, s3))
              else (Inr l, s2)))"

section \<open>A sample environment and the state of a fresh process\<close>

text \<open>
  Concrete values for the parameters, used to run the model: the level constants with
  their symbols, no colours, a clock printed as a number, and no hooks.
\<close>

definition sample_env :: env where
  "sample_env =
     \<lparr>NOLOG = 100, FATAL = 50, ERROR = 40, WARNING = 30, INFO = 20, DEBUG = 10, EXCEPTION = 60,
      LOG2SYM = map_of [(60, ''EXCEPTION''), (50, ''FATAL''), (40, ''ERROR''),
                        (30, ''WARNING''), (20, ''INFO''), (10, ''DEBUG'')],
      NORMAL = [], BRIGHTRED = [],
      LVL2COL = map_of [(50, []), (40, []), (30, []), (20, []), (10, [])],
      strftime = (\<lambda>fmt t. str_nat t),
      percent = (\<lambda>m a. Inl TypeError),
      format_exc = (\<lambda>e. ''Traceback''),
      dateFmt = ''%y.%m.%d %H:%M:%S'',
      cbMessageKey = None, cbFormatter = None, cbWriter = None,
      sameMsgTimeout = 30, sameMsgCountMax = 0\<rparr>"

definition no_logger :: logger where
  "no_logger =
     \<lparr>domain = [], level = 0,
      common = \<lparr>queue = 0, evtQueue = 0, evtRotate = 0, maxSize = 0, backupCnt = 0\<rparr>,
      lastMsg = \<lparr>key = None, cnt = 1, entry = None\<rparr>,
      pathName = None, F = None, buf = [], size_buf = 0, pos = 0, console = False,
      thrTimer = None, thrLogger = None, stopped = False, server = None, client = None\<rparr>"

text \<open>A file system with the directory \<^verbatim>\<open>/tmp\<close> and no file.\<close>

definition tmp_fs :: filesys where
  "tmp_fs =
     \<lparr>cwd = [], dirs = [[], [''tmp'']], names = [], inodes = (\<lambda>i. []), n_inodes = 0,
      deny = []\<rparr>"

text \<open>The module just imported: an empty registry, the class attributes at their defaults.\<close>

definition initial_state :: state where
  "initial_state =
     \<lparr>domains = [], loggers = (\<lambda>l. no_logger), n_loggers = 0,
      queues = (\<lambda>q. []), n_queues = 0, events = (\<lambda>e. False), n_events = 0,
      files = (\<lambda>f. \<lparr>fo_inode = 0, fo_closed = True, fo_closes = 0\<rparr>), n_files = 0,
      fs = tmp_fs, backlog = None, colors = False, compress = None, useThreads = False,
      encoding = None, thrConsoleLogger = None, stdout = [], stderr = []\<rparr>"

text \<open>
  \<^verbatim>\<open>LogInit(level=NOLOG, pathName="/tmp/a.log", maxSize=100, backupCnt=1)\<close> in a fresh
  process, without and with \<^verbatim>\<open>useThreads\<close>.
\<close>

definition sync_state :: state where
  "sync_state =
     snd (LogInit sample_env None 100 (Some ''/tmp/a.log'') 100 1 False False None False None
            None None 0 initial_state)"

definition async_state :: state where
  "async_state =
     snd (LogInit sample_env None 100 (Some ''/tmp/a.log'') 100 1 False False None True None
            None None 0 initial_state)"

lemma sync_state_logger:
  "loggers sync_state 0 =
     \<lparr>domain = ''root'', level = 100,
      common = \<lparr>queue = 0, evtQueue = 0, evtRotate = 1, maxSize = 100, backupCnt = 1\<rparr>,
      lastMsg = \<lparr>key = None, cnt = 1, entry = None\<rparr>,
      pathName = Some ''/tmp/a.log'', F = Some 0, buf = [], size_buf = 0, pos = 0,
      console = False, thrTimer = None, thrLogger = None, stopped = False, server = None,
      client = None\<rparr>"
  by code_simp


lemma async_state_logger:
  "loggers async_state 0 =
     \<lparr>domain = ''root'', level = 100,
      common = \<lparr>queue = 0, evtQueue = 0, evtRotate = 1, maxSize = 100, backupCnt = 1\<rparr>,
      lastMsg = \<lparr>key = None, cnt = 1, entry = None\<rparr>,
      pathName = Some ''/tmp/a.log'', F = Some 0, buf = [], size_buf = 0, pos = 0,
      console = False, thrTimer = None, thrLogger = Some AtLoop, stopped = False,
      server = None, client = None\<rparr>"
  by code_simp

lemma async_state_globals:
  "domains async_state = [(''root'', Some 0)]" "useThreads async_state = True"
  "queues async_state 0 = []" "fo_closed (files async_state 0) = False"
  "fo_inode (files async_state 0) = 0" "inodes (fs async_state) 0 = []"
  by code_simp+


section \<open>Construction: the check of maxSize and backupCnt\<close>

text \<open>
  C1, as stated, fails: construction with \<open>maxSize = 0\<close> and \<open>backupCnt = 1\<close> (zero
  maxSize with nonzero backupCnt) succeeds, and construction with \<open>maxSize = 1\<close> and
  \<open>backupCnt = 0\<close> (neither negative, maxSize not zero) raises \<open>ValueError\<close>.
\<close>

theorem init_check_counterexample:
  "fst (Logger_init sample_env ''root'' 0 None 0 1 False None None initial_state) = Inr 0
   \<and> fst (Logger_init sample_env ''root'' 0 None 1 0 False None None initial_state)
       = Inl (ValueError ''Invalid maxSize or backupCnt'')"
  by (simp add: Logger_init_def init_file_def Let_def initial_state_def)

text \<open>
  C1, amended: construction raises \<open>ValueError\<close> exactly when \<open>maxSize\<close> is negative,
  \<open>backupCnt\<close> is negative, or \<open>maxSize\<close> is positive while \<open>backupCnt\<close> is zero; for every
  other combination it raises no \<open>ValueError\<close>.
\<close>

theorem init_check:
  "(\<exists>m. fst (Logger_init E d lvl pth mx bk cons srv conn s) = Inl (ValueError m))
   = (mx < 0 \<or> bk < 0 \<or> (0 < mx \<and> bk = 0))"
proof (cases "mx < 0 \<or> bk < 0 \<or> (0 < mx \<and> bk = 0)")
  case True
  then show ?thesis by (simp add: Logger_init_def)
next
  case False
  have ff: "find_shared s' p vs \<noteq> Inl (ValueError m)" for s' p vs m
    by (induction s' p vs rule: find_shared.induct) auto
  have "init_file l pth s' \<noteq> (Inl (ValueError m), s2)" for l s' m s2
    using ff
    by (auto simp: init_file_def py_open_def fs_open_append_def
        split: option.splits sum.splits prod.splits if_splits)
  then show ?thesis using False
    by (auto simp: Logger_init_def Let_def split: prod.splits sum.splits)
qed

theorem init_check_witness:
  "(\<exists>m. fst (Logger_init sample_env ''root'' 0 None 100 0 False None None initial_state)
          = Inl (ValueError m))
   \<and> (\<nexists>m. fst (Logger_init sample_env ''root'' 0 None 0 3 False None None initial_state)
          = Inl (ValueError m))"
  using init_check[of sample_env "''root''" 0 None 100 0 False None None initial_state]
        init_check[of sample_env "''root''" 0 None 0 3 False None None initial_state]
  by simp

section \<open>The level gate of the convenience calls\<close>

text \<open>
  C7: each of \<^verbatim>\<open>debug\<close>, \<^verbatim>\<open>info\<close>, \<^verbatim>\<open>warning\<close>, \<^verbatim>\<open>error\<close>, \<^verbatim>\<open>fatal\<close> and \<^verbatim>\<open>exception\<close>, called on a
  logger whose level is above the level of the call, returns normally and leaves the
  whole state (buffers, queues, files, streams, the logger) as it was.
\<close>

theorem level_gate_noop:
  "(DEBUG E < level (loggers s self) \<longrightarrow> Logger_debug E self msg args kw t s = (Inr (), s))
   \<and> (INFO E < level (loggers s self) \<longrightarrow> Logger_info E self msg args kw t s = (Inr (), s))
   \<and> (WARNING E < level (loggers s self) \<longrightarrow>
        Logger_warning E self msg args kw t s = (Inr (), s))
   \<and> (ERROR E < level (loggers s self) \<longrightarrow> Logger_error E self msg args kw t s = (Inr (), s))
   \<and> (FATAL E < level (loggers s self) \<longrightarrow> Logger_fatal E self msg args kw t s = (Inr (), s))
   \<and> (EXCEPTION E < level (loggers s self) \<longrightarrow>
        Logger_exception E self msg args kw t exc s = (Inr (), s))"
  by (simp add: Logger_debug_def Logger_info_def Logger_warning_def Logger_error_def
      Logger_fatal_def Logger_exception_def)

theorem level_gate_noop_witness:
  "level (loggers sync_state 0) = 100
   \<and> Logger_debug sample_env 0 ''m'' [] [] 1 sync_state = (Inr (), sync_state)
   \<and> Logger_info sample_env 0 ''m'' [] [] 1 sync_state = (Inr (), sync_state)
   \<and> Logger_warning sample_env 0 ''m'' [] [] 1 sync_state = (Inr (), sync_state)
   \<and> Logger_error sample_env 0 ''m'' [] [] 1 sync_state = (Inr (), sync_state)
   \<and> Logger_fatal sample_env 0 ''m'' [] [] 1 sync_state = (Inr (), sync_state)
   \<and> Logger_exception sample_env 0 ''m'' [] [] 1 None sync_state = (Inr (), sync_state)"
  using level_gate_noop[of sample_env sync_state 0 "''m''" "[]" "[]" 1 None]
  by (simp add: sync_state_logger sample_env_def)

section \<open>critical and fatal\<close>

text \<open>
  C10: \<^verbatim>\<open>critical\<close> does what \<^verbatim>\<open>fatal\<close> does, for every logger and all arguments: both log
  the entry at level \<open>FATAL\<close> when the level of the logger is at most \<open>FATAL\<close>, and do
  nothing otherwise.
\<close>

theorem critical_is_fatal:
  "Logger_critical E self msg args kw t s = Logger_fatal E self msg args kw t s
   \<and> Logger_critical E self msg args kw t s =
       (if level (loggers s self) \<le> FATAL E
        then Logger__log E self (FATAL E) msg args kw t s else (Inr (), s))"
  by (simp add: Logger_critical_def Logger_fatal_def)

section \<open>Graceful shutdown\<close>

text \<open>
  C2 at a concrete input. One entry is logged and the logger is shut down gracefully
  (\<open>now = False\<close>), with \<^verbatim>\<open>maxSize=100\<close>. In background mode the writer thread, on the
  sentinel, writes the buffer, closes the file and drops the handle, and the domain
  leaves the registry. In synchronous mode only the last happens: the line is still in
  the buffer, nothing has reached the file, and the handle is still there and open.
\<close>

theorem graceful_shutdown_sync_keeps_buffer:
  "(let r = Logger_shutdown sample_env 0 False
              (snd (Logger_log sample_env 0 20 ''hello'' [] [] 5 async_state))
    in fst r = Inr () \<and> domains (snd r) = [] \<and> buf (loggers (snd r) 0) = []
       \<and> inodes (fs (snd r)) 0 = ''5: INFO: hello'' @ nl
       \<and> F (loggers (snd r) 0) = None \<and> fo_closed (files (snd r) 0))
   \<and> (let r = Logger_shutdown sample_env 0 False
              (snd (Logger_log sample_env 0 20 ''hello'' [] [] 5 sync_state))
    in fst r = Inr () \<and> domains (snd r) = []
       \<and> buf (loggers (snd r) 0) = [''5: INFO: hello'' @ nl]
       \<and> inodes (fs (snd r)) 0 = []
       \<and> F (loggers (snd r) 0) = Some 0 \<and> fo_closed (files (snd r) 0) = False
       \<and> fo_closes (files (snd r) 0) = 0)"
  by code_simp

section \<open>Initialising a domain again\<close>

text \<open>
  C3 at a concrete input: the domain \<^verbatim>\<open>root\<close> has a registered logger with a running
  writer thread. \<^verbatim>\<open>LogInit\<close> for the same domain registers a new logger, and the previous
  one is neither stopped nor joined: its thread still stands at its loop, its file is
  still open, and the new logger has opened the same file again. \<^verbatim>\<open>GetLogger\<close> for the
  same domain stops and joins the previous logger, and then raises \<open>KeyError\<close>: the
  registry is left without the domain and no replacement is constructed.
\<close>

theorem reinit_previous_logger:
  "(let r = LogInit sample_env None 100 (Some ''/tmp/a.log'') 100 1 False False None True None
              None None 1 async_state
    in fst r = Inr 1 \<and> domains (snd r) = [(''root'', Some 1)]
       \<and> stopped (loggers (snd r) 0) = False \<and> thrLogger (loggers (snd r) 0) = Some AtLoop
       \<and> queues (snd r) 0 = [] \<and> F (loggers (snd r) 0) = Some 0
       \<and> fo_closed (files (snd r) 0) = False
       \<and> F (loggers (snd r) 1) = Some 1 \<and> fo_closed (files (snd r) 1) = False
       \<and> fo_inode (files (snd r) 1) = fo_inode (files (snd r) 0))
   \<and> (let r = GetLogger sample_env None 100 (Some ''/tmp/a.log'') 100 1 False None None
              async_state
    in fst r = Inl KeyError \<and> domains (snd r) = [] \<and> n_loggers (snd r) = 1
       \<and> stopped (loggers (snd r) 0) \<and> thrLogger (loggers (snd r) 0) = None)"
  by code_simp

section \<open>Coalescing: what the timer flushes\<close>

text \<open>Coalescing of up to three equal messages, and a synchronous logger that writes at once.\<close>

definition coalesce_env :: env where
  "coalesce_env = sample_env\<lparr>sameMsgCountMax := 3\<rparr>"

definition plain_state :: state where
  "plain_state =
     snd (LogInit sample_env None 10 (Some ''/tmp/a.log'') 0 0 False False None False None
            None None 0 initial_state)"

definition info_at :: "nat \<Rightarrow> state \<Rightarrow> state" where
  "info_at t s = snd (Logger_info coalesce_env 0 ''m'' [] [] t s)"

text \<open>
  C4 at a concrete input, with \<^verbatim>\<open>sameMsgCountMax = 3\<close>. After three equal messages (at
  times 1, 2, 3) the first is in the file, the stored entry is the third and the count
  is 3; the timer was created at the second with the arguments \<^verbatim>\<open>(key, entry, 0)\<close>. When
  it fires it writes the second entry, without an \<^verbatim>\<open>N times:\<close> prefix, and stays set as
  the timer of the logger. With five equal messages the line \<^verbatim>\<open>3 times: \<close> is written when
  the fourth arrives, by \<^verbatim>\<open>__logEntry\<close>, not by the timer; the timer then writes the fifth
  without a prefix.
\<close>

theorem timer_flush_has_no_count:
  "(let s = info_at 3 (info_at 2 (info_at 1 plain_state))
    in inodes (fs s) 0 = ''1: INFO: m'' @ nl
       \<and> lastMsg (loggers s 0) = \<lparr>key = Some ''m'', cnt = 3,
                                  entry = Some (3, ''root'', 20, ''m'', [])\<rparr>
       \<and> thrTimer (loggers s 0) = Some \<lparr>tm_key = Some ''m'',
                                         tm_entry = (2, ''root'', 20, ''m'', []),
                                         tm_cnt = 0, tm_state = Armed\<rparr>
       \<and> inodes (fs (timer_fire coalesce_env 0 s)) 0 = ''1: INFO: m'' @ nl @ ''2: INFO: m'' @ nl
       \<and> thrTimer (loggers (timer_fire coalesce_env 0 s) 0)
           = Some \<lparr>tm_key = Some ''m'', tm_entry = (2, ''root'', 20, ''m'', []),
                   tm_cnt = 0, tm_state = Fired\<rparr>)
   \<and> (let s = info_at 5 (info_at 4 (info_at 3 (info_at 2 (info_at 1 plain_state))))
    in inodes (fs s) 0 = ''1: INFO: m'' @ nl @ ''3 times: 3: INFO: m'' @ nl @ ''4: INFO: m'' @ nl
       \<and> inodes (fs (timer_fire coalesce_env 0 s)) 0
           = ''1: INFO: m'' @ nl @ ''3 times: 3: INFO: m'' @ nl @ ''4: INFO: m'' @ nl
             @ ''5: INFO: m'' @ nl)"
  by code_simp

section \<open>Rotation: a failing backup rename\<close>







lemma resolve_cwd: "cwd fsys' = cwd fsys \<Longrightarrow> resolve fsys' q = resolve fsys q"
  by (simp add: resolve_def)

lemma os_replace_paths:
  "os_replace fsys a b = (r, fsys') \<Longrightarrow>
     cwd fsys' = cwd fsys \<and> dirs fsys' = dirs fsys \<and> deny fsys' = deny fsys"
  by (auto simp: os_replace_def Let_def split: option.splits if_splits)

lemma shift_loop_paths:
  "shift_loop fsys d n z ns cs = (r, fsys') \<Longrightarrow>
     cwd fsys' = cwd fsys \<and> dirs fsys' = dirs fsys \<and> deny fsys' = deny fsys"
proof (induction cs arbitrary: fsys)
  case Nil
  then show ?case by simp
next
  case (Cons c cs)
  then show ?case
    by (auto simp: Let_def split: if_splits prod.splits sum.splits dest!: os_replace_paths)
qed

lemma shift_backups_paths:
  "cwd (shift_backups fsys d n z ns k) = cwd fsys"
  "dirs (shift_backups fsys d n z ns k) = dirs fsys"
  "deny (shift_backups fsys d n z ns k) = deny fsys"
  using shift_loop_paths[of fsys d n z ns "shift_range k"]
  by (auto simp: shift_backups_def prod_eq_iff)

lemma shift_backups_resolve [simp]:
  "resolve (shift_backups fsys d n z ns k) q = resolve fsys q"
  by (rule resolve_cwd) (simp add: shift_backups_paths)

lemma shift_backups_can_create [simp]:
  "can_create (shift_backups fsys d n z ns k) q = can_create fsys q"
  by (simp add: can_create_def shift_backups_paths)












section \<open>Loggers on the same file\<close>

text \<open>
  C6, as stated, fails. The registered logger of \<^verbatim>\<open>root\<close> has \<^verbatim>\<open>/tmp/a.log\<close> open. A logger
  for the domain \<^verbatim>\<open>b\<close> is requested with the path \<^verbatim>\<open>/tmp/./a.log\<close>, which resolves to the same
  file. The constructor compares the strings, finds no match, and opens the file
  again: two open file objects on one inode, and two different queues.
\<close>

theorem shared_file_counterexample:
  "(let r = GetLogger sample_env (Some ''b'') 100 (Some ''/tmp/./a.log'') 100 1 False None None
              async_state
    in fst r = Inr 1
       \<and> resolve (fs (snd r)) ''/tmp/./a.log'' = resolve (fs (snd r)) ''/tmp/a.log''
       \<and> pathName (loggers (snd r) 0) = Some ''/tmp/a.log''
       \<and> F (loggers (snd r) 0) = Some 0 \<and> fo_closed (files (snd r) 0) = False
       \<and> F (loggers (snd r) 1) = Some 1 \<and> fo_closed (files (snd r) 1) = False
       \<and> fo_inode (files (snd r) 1) = fo_inode (files (snd r) 0)
       \<and> queue (common (loggers (snd r) 0)) = 0 \<and> queue (common (loggers (snd r) 1)) = 1)"
  by code_simp

lemma find_shared_found:
  assumes "\<forall>v\<in>set vs. \<exists>l. v = Some l \<and> l < n"
    and "\<exists>v\<in>set vs. \<exists>l. v = Some l \<and> pathName (loggers s l) = Some p"
    and "\<forall>l<n. pathName (loggers s0 l) = pathName (loggers s l)"
  shows "\<exists>l. find_shared s0 p vs = Inr (Some l) \<and> Some l \<in> set vs
             \<and> pathName (loggers s l) = Some p"
  using assms
proof (induction vs)
  case Nil
  then show ?case by simp
next
  case (Cons v vs)
  then obtain l where l: "v = Some l" "l < n" by auto
  show ?case
  proof (cases "pathName (loggers s l) = Some p")
    case True
    then show ?thesis using l Cons.prems(3) by auto
  next
    case False
    then have "find_shared s0 p (v # vs) = find_shared s0 p vs"
      using l Cons.prems(3) by auto
    moreover have "\<exists>l. find_shared s0 p vs = Inr (Some l) \<and> Some l \<in> set vs
             \<and> pathName (loggers s l) = Some p"
      using Cons False l by auto
    ultimately show ?thesis by auto
  qed
qed

text \<open>
  C6, amended. A logger constructed with a \<^verbatim>\<open>pathName\<close> (whose directory exists) that is
  equal, as a string, to the \<^verbatim>\<open>pathName\<close> of a logger in the registry opens no file and
  starts no thread: its \<^verbatim>\<open>CommonConfig\<close> holds the queue, the wake event and the rotate
  event (and the limits) of such a registered logger, and no file object is created.
  The registry holds loggers that exist (no \<^verbatim>\<open>None\<close>, as when \<^verbatim>\<open>GetLogger\<close> constructs).
\<close>

theorem same_pathName_shares:
  assumes "\<not> (mx < 0 \<or> bk < 0 \<or> (0 < mx \<and> bk = 0))"
    and "isdir (fs s) (dirname p)"
    and "\<forall>v\<in>set (domains s). \<exists>l. snd v = Some l \<and> l < n_loggers s"
    and "\<exists>v\<in>set (domains s). \<exists>l. snd v = Some l \<and> pathName (loggers s l) = Some p"
  shows "\<exists>l. Some l \<in> snd ` set (domains s) \<and> pathName (loggers s l) = Some p
           \<and> fst (Logger_init E d lvl (Some p) mx bk cons srv conn s) = Inr (n_loggers s)
           \<and> F (loggers (snd (Logger_init E d lvl (Some p) mx bk cons srv conn s)) (n_loggers s)) = None
           \<and> thrLogger (loggers (snd (Logger_init E d lvl (Some p) mx bk cons srv conn s)) (n_loggers s)) = None
           \<and> common (loggers (snd (Logger_init E d lvl (Some p) mx bk cons srv conn s)) (n_loggers s))
               = common (loggers s l)
           \<and> files (snd (Logger_init E d lvl (Some p) mx bk cons srv conn s)) = files s
           \<and> n_files (snd (Logger_init E d lvl (Some p) mx bk cons srv conn s)) = n_files s
           \<and> fs (snd (Logger_init E d lvl (Some p) mx bk cons srv conn s)) = fs s"
proof -
  define L0 where "L0 = \<lparr>domain = d, level = lvl,
                             common = \<lparr>queue = n_queues s, evtQueue = n_events s,
                                       evtRotate = Suc (n_events s), maxSize = mx,
                                       backupCnt = bk\<rparr>,
                             lastMsg = \<lparr>key = None, cnt = 1, entry = None\<rparr>,
                             pathName = Some p, F = None, buf = [], size_buf = 0, pos = 0,
                             console = cons, thrTimer = None, thrLogger = None,
                             stopped = False, server = None, client = None\<rparr>"
  define s0 where "s0 = s\<lparr>loggers := (loggers s)(n_loggers s := L0),
                       n_loggers := Suc (n_loggers s),
                       queues := (queues s)(n_queues s := []),
                       n_queues := Suc (n_queues s),
                       events := (events s)(n_events s := False, Suc (n_events s) := False),
                       n_events := Suc (Suc (n_events s))\<rparr>"
  have a: "\<forall>v\<in>set (map snd (domains s)). \<exists>l. v = Some l \<and> l < n_loggers s"
    using assms(3) by auto
  have b: "\<exists>v\<in>set (map snd (domains s)). \<exists>l. v = Some l \<and> pathName (loggers s l) = Some p"
    using assms(4) by auto
  have c: "\<forall>l<n_loggers s. pathName (loggers s0 l) = pathName (loggers s l)"
    by (simp add: s0_def)
  obtain l where l: "find_shared s0 p (map snd (domains s)) = Inr (Some l)"
    "Some l \<in> set (map snd (domains s))" "pathName (loggers s l) = Some p"
    using find_shared_found[OF a b c] by blast
  have ln: "l < n_loggers s" using l(2) a by auto
  have s0: "domains s0 = domains s" "fs s0 = fs s" "loggers s0 l = loggers s l"
    using ln by (simp_all add: s0_def)
  have "init_file (n_loggers s) (Some p) s0 =
          (Inr (), upd_logger (n_loggers s)
                        (\<lambda>L. L\<lparr>common :=
                                 \<lparr>queue = queue (common (loggers s l)),
                                  evtQueue = evtQueue (common (loggers s l)),
                                  evtRotate = evtRotate (common (loggers s l)),
                                  maxSize = maxSize (common (loggers s l)),
                                  backupCnt = backupCnt (common (loggers s l))\<rparr>\<rparr>) s0)"
    using assms(2) l s0 by (simp add: init_file_def)
  then have "fst (Logger_init E d lvl (Some p) mx bk cons srv conn s) = Inr (n_loggers s)
           \<and> F (loggers (snd (Logger_init E d lvl (Some p) mx bk cons srv conn s)) (n_loggers s)) = None
           \<and> thrLogger (loggers (snd (Logger_init E d lvl (Some p) mx bk cons srv conn s)) (n_loggers s)) = None
           \<and> common (loggers (snd (Logger_init E d lvl (Some p) mx bk cons srv conn s)) (n_loggers s))
               = common (loggers s l)
           \<and> files (snd (Logger_init E d lvl (Some p) mx bk cons srv conn s)) = files s
           \<and> n_files (snd (Logger_init E d lvl (Some p) mx bk cons srv conn s)) = n_files s
           \<and> fs (snd (Logger_init E d lvl (Some p) mx bk cons srv conn s)) = fs s"
    using assms(1)
    by (simp add: Logger_init_def Let_def s0_def[symmetric] L0_def[symmetric] upd_logger_def
        split: option.splits)
       (simp add: s0_def L0_def)
  then show ?thesis using l by auto
qed

lemma async_state_paths:
  "isdir (fs async_state) (dirname ''/tmp/a.log'')" "n_loggers async_state = 1"
  "n_files async_state = 1"
  by code_simp+

theorem same_pathName_shares_witness:
  "fst (Logger_init sample_env ''b'' 100 (Some ''/tmp/a.log'') 100 1 False None None async_state)
     = Inr 1
   \<and> F (loggers (snd (Logger_init sample_env ''b'' 100 (Some ''/tmp/a.log'') 100 1 False None
                          None async_state)) 1) = None
   \<and> queue (common (loggers (snd (Logger_init sample_env ''b'' 100 (Some ''/tmp/a.log'') 100 1
                                     False None None async_state)) 1)) = 0
   \<and> n_files (snd (Logger_init sample_env ''b'' 100 (Some ''/tmp/a.log'') 100 1 False None None
                     async_state)) = 1"
  using same_pathName_shares[of 100 1 async_state "''/tmp/a.log''" sample_env "''b''" 100 False
          None None]
  by (simp add: async_state_paths async_state_globals async_state_logger)

section \<open>The generic call has no level gate\<close>















section \<open>Stopping twice, and shutting down after stopping\<close>

text \<open>
  Three properties of a state. A file object is in order when \<^verbatim>\<open>close()\<close> was never called
  on it, or was called once and the object is closed. A set timer is in order when the
  logger has a stored last entry, as after every \<^verbatim>\<open>__logEntry\<close> that sets a timer.
\<close>

definition fileobj_ok :: "fileobj \<Rightarrow> bool" where
  "fileobj_ok fo = (fo_closes fo = 0 \<or> (fo_closed fo \<and> fo_closes fo = 1))"

definition files_ok :: "state \<Rightarrow> bool" where
  "files_ok s = (\<forall>i. fileobj_ok (files s i))"

definition timer_ok :: "logger \<Rightarrow> bool" where
  "timer_ok L = (thrTimer L = None \<or> entry (lastMsg L) \<noteq> None)"

text \<open>
  What the calls below leave as it is: the registry, the domain of each logger, and the
  timer and stored last message of each logger.
\<close>

definition reg_view ::
  "state \<Rightarrow> (string \<times> nat option) list \<times> (nat \<Rightarrow> string \<times> timer option \<times> last_message)" where
  "reg_view s = (domains s, \<lambda>l. (domain (loggers s l), thrTimer (loggers s l), lastMsg (loggers s l)))"

lemma reg_view_upd [simp]:
  "domain (f (loggers s l)) = domain (loggers s l) \<Longrightarrow>
   thrTimer (f (loggers s l)) = thrTimer (loggers s l) \<Longrightarrow>
   lastMsg (f (loggers s l)) = lastMsg (loggers s l) \<Longrightarrow>
   reg_view (upd_logger l f s) = reg_view s"
  by (auto simp: reg_view_def upd_logger_def fun_eq_iff)

lemma reg_view_simps [simp]:
  "reg_view (s\<lparr>fs := x1\<rparr>) = reg_view s"
  "reg_view (s\<lparr>files := x2\<rparr>) = reg_view s"
  "reg_view (s\<lparr>n_files := x3\<rparr>) = reg_view s"
  "reg_view (s\<lparr>events := x4\<rparr>) = reg_view s"
  "reg_view (s\<lparr>backlog := x5\<rparr>) = reg_view s"
  "reg_view (s\<lparr>stdout := x6\<rparr>) = reg_view s"
  "reg_view (s\<lparr>stderr := x7\<rparr>) = reg_view s"
  "reg_view (s\<lparr>thrConsoleLogger := x8\<rparr>) = reg_view s"
  "reg_view (s\<lparr>queues := x9\<rparr>) = reg_view s"
  by (simp_all add: reg_view_def)

lemma reg_viewD:
  "reg_view s' = reg_view s \<Longrightarrow>
     domains s' = domains s
     \<and> (\<forall>l. domain (loggers s' l) = domain (loggers s l)
            \<and> thrTimer (loggers s' l) = thrTimer (loggers s l)
            \<and> lastMsg (loggers s' l) = lastMsg (loggers s l))"
  by (auto simp: reg_view_def fun_eq_iff)


lemma file_close_reg [simp]: "reg_view (file_close f s) = reg_view s"
  by (simp add: file_close_def)


lemma event_set_reg [simp]: "reg_view (event_set e s) = reg_view s"
  by (simp add: event_set_def)

lemma event_clear_reg [simp]: "reg_view (event_clear e s) = reg_view s"
  by (simp add: event_clear_def)

lemma backlog_append_reg [simp]: "reg_view (backlog_append x s) = reg_view s"
  by (simp add: backlog_append_def split: option.splits)

lemma report_error_reg [simp]: "reg_view (report_error E err s) = reg_view s"
  by (simp add: report_error_def Let_def)





lemma logMessage_console_reg [simp]: "reg_view (logMessage_console E self e m s) = reg_view s"
  by (simp add: logMessage_console_def split: prod.splits option.splits)

lemma logMessage_client_reg [simp]: "reg_view (logMessage_client self e s) = reg_view s"
  by (simp add: logMessage_client_def split: prod.splits option.splits)

text \<open>No part of writing, rotating or emitting calls \<^verbatim>\<open>close()\<close> on a closed file object.\<close>

lemma files_ok_simps [simp]:
  "files_ok (s\<lparr>fs := x1\<rparr>) = files_ok s"
  "files_ok (s\<lparr>loggers := x2\<rparr>) = files_ok s"
  "files_ok (s\<lparr>queues := x3\<rparr>) = files_ok s"
  "files_ok (s\<lparr>events := x4\<rparr>) = files_ok s"
  "files_ok (s\<lparr>backlog := x5\<rparr>) = files_ok s"
  "files_ok (s\<lparr>stdout := x6\<rparr>) = files_ok s"
  "files_ok (s\<lparr>stderr := x7\<rparr>) = files_ok s"
  "files_ok (s\<lparr>thrConsoleLogger := x8\<rparr>) = files_ok s"
  "files_ok (s\<lparr>domains := x9\<rparr>) = files_ok s"
  "files_ok (s\<lparr>n_files := x10\<rparr>) = files_ok s"
  by (simp_all add: files_ok_def)

lemma files_ok_upd [simp]: "files_ok (upd_logger l f s) = files_ok s"
  by (simp add: upd_logger_def)

lemma files_ok_event [simp]:
  "files_ok (event_set e s) = files_ok s" "files_ok (event_clear e s) = files_ok s"
  by (simp_all add: event_set_def event_clear_def)

lemma files_ok_backlog [simp]: "files_ok (backlog_append x s) = files_ok s"
  by (simp add: backlog_append_def split: option.splits)

lemma files_ok_report [simp]: "files_ok (report_error E err s) = files_ok s"
  by (simp add: report_error_def Let_def)

lemma files_ok_console [simp]: "files_ok (logMessage_console E self e m s) = files_ok s"
  by (simp add: logMessage_console_def split: prod.splits option.splits)

lemma files_ok_client [simp]: "files_ok (logMessage_client self e s) = files_ok s"
  by (simp add: logMessage_client_def split: prod.splits option.splits)


lemma file_flush_open: "file_flush f s = (Inr u, s') \<Longrightarrow> s' = s \<and> \<not> fo_closed (files s f)"
  by (auto simp: file_flush_def split: if_splits)


lemma fileobj_ok_new [simp]: "fileobj_ok \<lparr>fo_inode = i, fo_closed = False, fo_closes = 0\<rparr>"
  by (simp add: fileobj_ok_def)



lemma writePending_files: "Logger__writePending E self s = (r, s') \<Longrightarrow> files s' = files s"
  by (auto simp: Logger__writePending_def Let_def file_write_def upd_logger_def
      split: if_splits option.splits prod.splits sum.splits)





definition dom_view :: "state \<Rightarrow> (string \<times> nat option) list \<times> (nat \<Rightarrow> string)" where
  "dom_view s = (domains s, \<lambda>l. domain (loggers s l))"

lemma reg_dom_view: "reg_view s' = reg_view s \<Longrightarrow> dom_view s' = dom_view s"
  by (auto simp: reg_view_def dom_view_def fun_eq_iff)

lemma dom_view_upd [simp]:
  "domain (f (loggers s l)) = domain (loggers s l) \<Longrightarrow> dom_view (upd_logger l f s) = dom_view s"
  by (auto simp: dom_view_def upd_logger_def fun_eq_iff)

lemma dom_view_simps [simp]:
  "dom_view (s\<lparr>queues := x9\<rparr>) = dom_view s"
  "dom_view (s\<lparr>stderr := x7\<rparr>) = dom_view s"
  "dom_view (backlog_append x s) = dom_view s"
  "dom_view (report_error E err s) = dom_view s"
  "dom_view (logMessage_console E self e m s) = dom_view s"
  "dom_view (logMessage_client self e s) = dom_view s"
  "dom_view (event_set ev s) = dom_view s"
  "dom_view (event_clear ev s) = dom_view s"
  "dom_view (file_close f s) = dom_view s"
  by (rule reg_dom_view, simp)+



text \<open>Emitting a message sets no timer and, without a key, keeps the stored last message.\<close>

definition tm_view :: "state \<Rightarrow> nat \<Rightarrow> timer option \<times> last_message" where
  "tm_view s = (\<lambda>l. (thrTimer (loggers s l), lastMsg (loggers s l)))"

lemma reg_tm_view: "reg_view s' = reg_view s \<Longrightarrow> tm_view s' = tm_view s"
  by (auto simp: reg_view_def tm_view_def fun_eq_iff)

lemma tm_view_simps [simp]:
  "tm_view (s\<lparr>queues := x9\<rparr>) = tm_view s"
  "tm_view (s\<lparr>stderr := x7\<rparr>) = tm_view s"
  "tm_view (backlog_append x s) = tm_view s"
  "tm_view (report_error E err s) = tm_view s"
  "tm_view (logMessage_console E self e m s) = tm_view s"
  "tm_view (logMessage_client self e s) = tm_view s"
  "tm_view (event_set ev s) = tm_view s"
  "tm_view (event_clear ev s) = tm_view s"
  "tm_view (file_close f s) = tm_view s"
  by (rule reg_tm_view, simp)+







lemma timer_ok_other:
  "l \<noteq> self \<Longrightarrow> timer_ok (loggers (upd_logger self f s) l) = timer_ok (loggers s l)"
  by (simp add: upd_logger_def)





lemma tm_view_upd [simp]:
  "thrTimer (f (loggers s l)) = thrTimer (loggers s l) \<Longrightarrow>
   lastMsg (f (loggers s l)) = lastMsg (loggers s l) \<Longrightarrow>
   tm_view (upd_logger l f s) = tm_view s"
  by (auto simp: tm_view_def upd_logger_def fun_eq_iff)

lemma thread_die_simps [simp]:
  "files_ok (thread_die E l err s) = files_ok s"
  "dom_view (thread_die E l err s) = dom_view s"
  "tm_view (thread_die E l err s) = tm_view s"
  by (simp_all add: thread_die_def)






declare logThread_run.simps [simp del]



text \<open>
  The writer thread has ended or will end when run on: the sentinel is in its queue and,
  if the thread is inside \<^verbatim>\<open>wait()\<close>, the wake event is set.
\<close>

definition will_finish :: "nat \<Rightarrow> state \<Rightarrow> bool" where
  "will_finish self s =
     (case thrLogger (loggers s self) of
        None \<Rightarrow> False
      | Some Finished \<Rightarrow> True
      | Some AtLoop \<Rightarrow> None \<in> set (queues s (queue (common (loggers s self))))
      | Some InWait \<Rightarrow> None \<in> set (queues s (queue (common (loggers s self))))
                       \<and> events s (evtQueue (common (loggers s self))))"


lemma will_finish_die [simp]: "will_finish self (thread_die E self err s)"
  by (simp add: will_finish_def thread_die_def upd_logger_def)
































lemma files_ok_counters [simp]:
  "files_ok (s\<lparr>n_loggers := y1\<rparr>) = files_ok s"
  "files_ok (s\<lparr>n_queues := y2\<rparr>) = files_ok s"
  "files_ok (s\<lparr>n_events := y3\<rparr>) = files_ok s"
  "files_ok (s\<lparr>domains := y4\<rparr>) = files_ok s"
  "files_ok (s\<lparr>thrConsoleLogger := y5\<rparr>) = files_ok s"
  "files_ok (s\<lparr>colors := y6\<rparr>) = files_ok s"
  "files_ok (s\<lparr>compress := y7\<rparr>) = files_ok s"
  "files_ok (s\<lparr>useThreads := y8\<rparr>) = files_ok s"
  "files_ok (s\<lparr>encoding := y9\<rparr>) = files_ok s"
  by (simp_all add: files_ok_def)
















end
